theory Spec2Isabelle
  imports Main
begin

section \<open>The grammar DSL\<close>

text \<open>
  \<^verbatim>\<open>grammar.js\<close> is a declarative grammar: a JavaScript object whose fields are built
  from the combinators \<^verbatim>\<open>seq\<close>, \<^verbatim>\<open>choice\<close>, \<^verbatim>\<open>repeat\<close>, \<^verbatim>\<open>repeat1\<close> and \<^verbatim>\<open>optional\<close> over
  string literals, regular expressions and references \<^verbatim>\<open>$.name\<close> to other rules.
  A rule body is a value of the datatype \<open>rule\<close>: \<open>STRING\<close> is a string literal,
  \<open>PATTERN\<close> a regular expression (kept as its source text), \<open>SYMBOL\<close> a reference.
\<close>

datatype rule =
    SYMBOL string
  | STRING string
  | PATTERN string
  | SEQ "rule list"
  | CHOICE "rule list"
  | REPEAT rule
  | REPEAT1 rule
  | OPTIONAL rule

text \<open>An entry of a \<^verbatim>\<open>precedences\<close> row is a name or a rule reference.\<close>

datatype prec_entry = PName string | PSym string

record grammar =
  name :: string
  extras :: "rule list"
  word :: string
  externals :: "string list"
  precedences :: "prec_entry list list"
  conflicts :: "string list list"
  rules :: "(string \<times> rule) list"

text \<open>The helper at the end of \<^verbatim>\<open>grammar.js\<close>.\<close>

definition binary_expression :: "rule \<Rightarrow> rule \<Rightarrow> rule" where
  "binary_expression operator operand = SEQ [operand, REPEAT (SEQ [operator, operand])]"

section \<open>The grammar of cspaced\<close>

text \<open>
  The \<^verbatim>\<open>rules\<close> object, one definition per rule, in source order. The constant for the
  rule \<^verbatim>\<open>r\<close> is \<open>r_rule\<close>; a leading underscore of the rule's name (a hidden rule of
  tree-sitter) cannot start a constant's name and is dropped there, the key in
  \<open>cspaced_rules\<close> keeps it. Characters that cannot stand in a string literal here are
  written by their code: \<open>0x5C\<close> is the backslash, \<open>0x22\<close> the double quote, \<open>0x27\<close> the
  single quote. The key \<^verbatim>\<open>compound_initializer\<close> occurs twice in the object literal, with
  the same body; the second occurrence is \<open>compound_initializer_rule2\<close>.
\<close>

definition translation_unit_rule :: rule where
  "translation_unit_rule =
     REPEAT (CHOICE [SYMBOL ''external_declaration'', SYMBOL ''empty_statement''])"

definition external_declaration_rule :: rule where
  "external_declaration_rule =
     CHOICE [
       SYMBOL ''function_definition'', SYMBOL ''declaration'', SYMBOL ''preproc_directive'',
       SYMBOL ''empty_statement'']"

definition preproc_directive_rule :: rule where
  "preproc_directive_rule =
     CHOICE [
       SYMBOL ''preproc_include'', SYMBOL ''preproc_define'', SYMBOL ''preproc_if'',
       SYMBOL ''preproc_ifdef'', SYMBOL ''preproc_else'', SYMBOL ''preproc_endif'',
       SYMBOL ''preproc_undef'', SYMBOL ''preproc_pragma'', SYMBOL ''preproc_line'',
       SYMBOL ''preproc_error'']"

definition preproc_include_rule :: rule where
  "preproc_include_rule =
     SEQ [
       STRING ''#include'',
       CHOICE [
         SEQ [STRING ''<'', PATTERN ''.+'', STRING ''>''],
         SEQ [STRING ([CHR 0x22]), PATTERN ''.+'', STRING ([CHR 0x22])]]]"

definition preproc_define_rule :: rule where
  "preproc_define_rule =
     SEQ [
       STRING ''#define'', SYMBOL ''identifier'',
       OPTIONAL (SYMBOL ''_preproc_define_value'')]"

definition preproc_define_value_rule :: rule where
  "preproc_define_value_rule =
     CHOICE [PATTERN ''.+'', SYMBOL ''_parenthesized_parameter_list'']"

definition preproc_if_rule :: rule where
  "preproc_if_rule =
     SEQ [STRING ''#if'', SYMBOL ''_preproc_expression'']"

definition preproc_ifdef_rule :: rule where
  "preproc_ifdef_rule =
     SEQ [STRING ''#ifdef'', SYMBOL ''identifier'']"

definition preproc_else_rule :: rule where
  "preproc_else_rule =
     SEQ [STRING ''#else'']"

definition preproc_endif_rule :: rule where
  "preproc_endif_rule =
     SEQ [STRING ''#endif'']"

definition preproc_undef_rule :: rule where
  "preproc_undef_rule =
     SEQ [STRING ''#undef'', SYMBOL ''identifier'']"

definition preproc_pragma_rule :: rule where
  "preproc_pragma_rule =
     SEQ [STRING ''#pragma'', PATTERN ''.+'']"

definition preproc_line_rule :: rule where
  "preproc_line_rule =
     SEQ [STRING ''#line'', PATTERN ''.+'']"

definition preproc_error_rule :: rule where
  "preproc_error_rule =
     SEQ [STRING ''#error'', PATTERN ''.+'']"

definition preproc_expression_rule :: rule where
  "preproc_expression_rule =
     PATTERN ''.+''"

definition declaration_rule :: rule where
  "declaration_rule =
     SEQ [
       SYMBOL ''declaration_specifiers'',
       OPTIONAL (SYMBOL ''_init_declarator_list''),
       OPTIONAL (STRING '';'')]"

definition declaration_specifiers_rule :: rule where
  "declaration_specifiers_rule =
     REPEAT1 (CHOICE [
                SYMBOL ''storage_class_specifier'', SYMBOL ''type_qualifier'',
                SYMBOL ''function_specifier'', SYMBOL ''type_specifier'',
                SYMBOL ''alignment_specifier''])"

definition storage_class_specifier_rule :: rule where
  "storage_class_specifier_rule =
     CHOICE [
       STRING ''auto'', STRING ''register'', STRING ''static'', STRING ''extern'',
       STRING ''typedef'', STRING ''_Thread_local'']"

definition type_qualifier_rule :: rule where
  "type_qualifier_rule =
     CHOICE [
       STRING ''const'', STRING ''restrict'', STRING ''volatile'', STRING ''_Atomic'']"

definition function_specifier_rule :: rule where
  "function_specifier_rule =
     CHOICE [STRING ''inline'', STRING ''_Noreturn'']"

definition type_specifier_rule :: rule where
  "type_specifier_rule =
     CHOICE [
       STRING ''void'', STRING ''char'', STRING ''short'', STRING ''int'', STRING ''long'',
       STRING ''float'', STRING ''double'', STRING ''signed'', STRING ''unsigned'',
       STRING ''_Bool'', STRING ''_Complex'', STRING ''_Imaginary'',
       SYMBOL ''struct_specifier'', SYMBOL ''union_specifier'', SYMBOL ''enum_specifier'',
       SYMBOL ''typedef_name'']"

definition struct_specifier_rule :: rule where
  "struct_specifier_rule =
     CHOICE [
       SEQ [
         STRING ''struct'', SYMBOL ''identifier'', STRING ''{'',
         SYMBOL ''struct_declaration_list'', STRING ''}''],
       SEQ [STRING ''struct'', SYMBOL ''identifier'']]"

definition struct_declaration_list_rule :: rule where
  "struct_declaration_list_rule =
     REPEAT1 (SYMBOL ''struct_declaration'')"

definition struct_declaration_rule :: rule where
  "struct_declaration_rule =
     SEQ [
       SYMBOL ''specifier_qualifier_list'', SYMBOL ''struct_declarator_list'',
       STRING '';'']"

definition specifier_qualifier_list_rule :: rule where
  "specifier_qualifier_list_rule =
     REPEAT1 (CHOICE [SYMBOL ''type_qualifier'', SYMBOL ''type_specifier''])"

definition struct_declarator_list_rule :: rule where
  "struct_declarator_list_rule =
     SEQ [
       SYMBOL ''struct_declarator'',
       REPEAT (SEQ [STRING '','', SYMBOL ''struct_declarator''])]"

definition struct_declarator_rule :: rule where
  "struct_declarator_rule =
     CHOICE [
       SYMBOL ''declarator'',
       SEQ [
         OPTIONAL (SYMBOL ''declarator''),
         STRING '':'', SYMBOL ''constant_expression'']]"

definition enum_specifier_rule :: rule where
  "enum_specifier_rule =
     CHOICE [
       SEQ [
         STRING ''enum'', SYMBOL ''identifier'', STRING ''{'', SYMBOL ''enumerator_list'',
         STRING ''}''],
       SEQ [STRING ''enum'', OPTIONAL (SYMBOL ''identifier'')]]"

definition enumerator_list_rule :: rule where
  "enumerator_list_rule =
     SEQ [
       SYMBOL ''enumerator'',
       REPEAT (SEQ [STRING '','', SYMBOL ''enumerator'']),
       OPTIONAL (STRING '','')]"

definition enumerator_rule :: rule where
  "enumerator_rule =
     SEQ [
       SYMBOL ''enumeration_constant'',
       OPTIONAL (SEQ [STRING ''='', SYMBOL ''constant_expression''])]"

definition enumeration_constant_rule :: rule where
  "enumeration_constant_rule =
     SYMBOL ''identifier''"

definition typedef_name_rule :: rule where
  "typedef_name_rule =
     SYMBOL ''identifier''"

definition alignment_specifier_rule :: rule where
  "alignment_specifier_rule =
     SEQ [
       STRING ''_Alignas'',
       CHOICE [
         SEQ [STRING ''('', SYMBOL ''type_name'', STRING '')''],
         SEQ [STRING ''('', SYMBOL ''constant_expression'', STRING '')'']]]"

definition declarator_rule :: rule where
  "declarator_rule =
     CHOICE [
       SYMBOL ''identifier'',
       SEQ [STRING ''('', SYMBOL ''declarator'', STRING '')''],
       SEQ [SYMBOL ''pointer'', OPTIONAL (SYMBOL ''declarator'')],
       SEQ [
         SYMBOL ''declarator'', STRING ''['',
         OPTIONAL (SYMBOL ''constant_expression''),
         STRING '']''],
       SEQ [SYMBOL ''declarator'', STRING ''('', SYMBOL ''parameter_list'', STRING '')''],
       SEQ [
         SYMBOL ''declarator'', STRING ''('',
         OPTIONAL (SYMBOL ''identifier_list''),
         STRING '')'']]"

definition pointer_rule :: rule where
  "pointer_rule =
     SEQ [STRING ''*'', OPTIONAL (SYMBOL ''type_qualifier_list'')]"

definition type_qualifier_list_rule :: rule where
  "type_qualifier_list_rule =
     REPEAT1 (SYMBOL ''type_qualifier'')"

definition parameter_list_rule :: rule where
  "parameter_list_rule =
     SEQ [
       SYMBOL ''parameter_declaration'',
       REPEAT (SEQ [STRING '','', SYMBOL ''parameter_declaration''])]"

definition parameter_declaration_rule :: rule where
  "parameter_declaration_rule =
     SEQ [
       SYMBOL ''declaration_specifiers'',
       CHOICE [SYMBOL ''declarator'', OPTIONAL (SYMBOL ''abstract_declarator'')]]"

definition identifier_list_rule :: rule where
  "identifier_list_rule =
     SEQ [SYMBOL ''identifier'', REPEAT (SEQ [STRING '','', SYMBOL ''identifier''])]"

definition type_name_rule :: rule where
  "type_name_rule =
     SEQ [SYMBOL ''specifier_qualifier_list'', OPTIONAL (SYMBOL ''abstract_declarator'')]"

definition abstract_declarator_rule :: rule where
  "abstract_declarator_rule =
     CHOICE [
       SYMBOL ''pointer'',
       SEQ [SYMBOL ''pointer'', SYMBOL ''direct_abstract_declarator''],
       SYMBOL ''direct_abstract_declarator'']"

definition direct_abstract_declarator_rule :: rule where
  "direct_abstract_declarator_rule =
     CHOICE [
       SEQ [STRING ''('', SYMBOL ''abstract_declarator'', STRING '')''],
       SEQ [
         OPTIONAL (SYMBOL ''direct_abstract_declarator''),
         STRING ''['',
         OPTIONAL (SYMBOL ''constant_expression''),
         STRING '']''],
       SEQ [
         OPTIONAL (SYMBOL ''direct_abstract_declarator''),
         STRING ''('',
         OPTIONAL (SYMBOL ''parameter_list''),
         STRING '')'']]"

definition init_declarator_list_rule :: rule where
  "init_declarator_list_rule =
     SEQ [
       SYMBOL ''_init_declarator'',
       REPEAT (SEQ [STRING '','', SYMBOL ''_init_declarator''])]"

definition init_declarator_rule :: rule where
  "init_declarator_rule =
     SEQ [SYMBOL ''declarator'', OPTIONAL (SEQ [STRING ''='', SYMBOL ''initializer''])]"

definition initializer_rule :: rule where
  "initializer_rule =
     CHOICE [
       SYMBOL ''assignment_expression'', SYMBOL ''initializer_list'',
       SYMBOL ''compound_initializer'']"

definition initializer_list_rule :: rule where
  "initializer_list_rule =
     SEQ [
       SYMBOL ''initializer'',
       REPEAT (SEQ [STRING '','', SYMBOL ''initializer'']),
       OPTIONAL (STRING '','')]"

definition compound_initializer_rule :: rule where
  "compound_initializer_rule =
     SEQ [STRING ''{'', OPTIONAL (SYMBOL ''initializer_list''), STRING ''}'']"

definition statement_rule :: rule where
  "statement_rule =
     CHOICE [
       SYMBOL ''labeled_statement'', SYMBOL ''compound_statement'',
       SYMBOL ''expression_statement'', SYMBOL ''selection_statement'',
       SYMBOL ''iteration_statement'', SYMBOL ''jump_statement'',
       SYMBOL ''empty_statement'']"

definition labeled_statement_rule :: rule where
  "labeled_statement_rule =
     CHOICE [
       SEQ [SYMBOL ''identifier'', STRING '':'', SYMBOL ''statement''],
       SEQ [
         STRING ''case'', SYMBOL ''constant_expression'', STRING '':'',
         SYMBOL ''statement''],
       SEQ [STRING ''default'', STRING '':'', SYMBOL ''statement'']]"

definition compound_statement_rule :: rule where
  "compound_statement_rule =
     SEQ [
       STRING '':'', SYMBOL ''_indent'',
       REPEAT (CHOICE [SYMBOL ''statement'', SYMBOL ''declaration'']),
       SYMBOL ''_dedent'']"

definition expression_statement_rule :: rule where
  "expression_statement_rule =
     SEQ [SYMBOL ''expression'', OPTIONAL (STRING '';'')]"

definition selection_statement_rule :: rule where
  "selection_statement_rule =
     CHOICE [
       SEQ [
         STRING ''if'', SYMBOL ''parenthesized_expression'', SYMBOL ''compound_statement'',
         OPTIONAL (SEQ [STRING ''else'', SYMBOL ''compound_statement''])],
       SEQ [
         STRING ''switch'', SYMBOL ''parenthesized_expression'', STRING ''{'',
         REPEAT (SYMBOL ''labeled_statement''),
         STRING ''}'']]"

definition iteration_statement_rule :: rule where
  "iteration_statement_rule =
     CHOICE [
       SEQ [
         STRING ''while'', SYMBOL ''parenthesized_expression'',
         SYMBOL ''compound_statement''],
       SEQ [
         STRING ''do'', SYMBOL ''compound_statement'', STRING ''while'',
         SYMBOL ''parenthesized_expression'', STRING '';''],
       SEQ [
         STRING ''for'', STRING ''('',
         OPTIONAL (CHOICE [SYMBOL ''declaration'', SYMBOL ''expression'']),
         STRING '';'',
         OPTIONAL (SYMBOL ''expression''),
         STRING '';'',
         OPTIONAL (SYMBOL ''expression''),
         STRING '')'', SYMBOL ''compound_statement'']]"

definition jump_statement_rule :: rule where
  "jump_statement_rule =
     SEQ [
       CHOICE [
         SEQ [STRING ''goto'', SYMBOL ''identifier''],
         SEQ [STRING ''continue''],
         SEQ [STRING ''break''],
         SEQ [STRING ''return'', OPTIONAL (SYMBOL ''expression'')]],
       OPTIONAL (STRING '';'')]"

definition empty_statement_rule :: rule where
  "empty_statement_rule =
     SEQ [STRING '';'']"

definition expression_rule :: rule where
  "expression_rule =
     SEQ [
       SYMBOL ''assignment_expression'',
       REPEAT (SEQ [STRING '','', SYMBOL ''assignment_expression''])]"

definition assignment_expression_rule :: rule where
  "assignment_expression_rule =
     CHOICE [
       SYMBOL ''conditional_expression'',
       SEQ [
         SYMBOL ''unary_expression'', SYMBOL ''assignment_operator'',
         SYMBOL ''assignment_expression'']]"

definition assignment_operator_rule :: rule where
  "assignment_operator_rule =
     CHOICE [
       STRING ''='', STRING ''*='', STRING ''/='', STRING ''%='', STRING ''+='',
       STRING ''-='', STRING ''<<='', STRING ''>>='', STRING ''&='', STRING ''^='',
       STRING ''|='']"

definition conditional_expression_rule :: rule where
  "conditional_expression_rule =
     SEQ [
       SYMBOL ''logical_or_expression'',
       OPTIONAL (SEQ [
                   STRING ''?'', SYMBOL ''expression'', STRING '':'',
                   SYMBOL ''conditional_expression''])]"

definition logical_or_expression_rule :: rule where
  "logical_or_expression_rule =
     binary_expression (STRING ''||'') (SYMBOL ''logical_and_expression'')"

definition logical_and_expression_rule :: rule where
  "logical_and_expression_rule =
     binary_expression (STRING ''&&'') (SYMBOL ''inclusive_or_expression'')"

definition inclusive_or_expression_rule :: rule where
  "inclusive_or_expression_rule =
     binary_expression (STRING ''|'') (SYMBOL ''exclusive_or_expression'')"

definition exclusive_or_expression_rule :: rule where
  "exclusive_or_expression_rule =
     binary_expression (STRING ''^'') (SYMBOL ''and_expression'')"

definition and_expression_rule :: rule where
  "and_expression_rule =
     binary_expression (STRING ''&'') (SYMBOL ''equality_expression'')"

definition equality_expression_rule :: rule where
  "equality_expression_rule =
     binary_expression
       (CHOICE [STRING ''=='', STRING ''!=''])
       (SYMBOL ''relational_expression'')"

definition relational_expression_rule :: rule where
  "relational_expression_rule =
     binary_expression
       (CHOICE [STRING ''<'', STRING ''<='', STRING ''>'', STRING ''>=''])
       (SYMBOL ''shift_expression'')"

definition shift_expression_rule :: rule where
  "shift_expression_rule =
     binary_expression
       (CHOICE [STRING ''<<'', STRING ''>>''])
       (SYMBOL ''additive_expression'')"

definition additive_expression_rule :: rule where
  "additive_expression_rule =
     binary_expression
       (CHOICE [STRING ''+'', STRING ''-''])
       (SYMBOL ''multiplicative_expression'')"

definition multiplicative_expression_rule :: rule where
  "multiplicative_expression_rule =
     binary_expression
       (CHOICE [STRING ''*'', STRING ''/'', STRING ''%''])
       (SYMBOL ''cast_expression'')"

definition cast_expression_rule :: rule where
  "cast_expression_rule =
     CHOICE [
       SEQ [STRING ''('', SYMBOL ''type_name'', STRING '')'', SYMBOL ''cast_expression''],
       SYMBOL ''unary_expression'']"

definition unary_expression_rule :: rule where
  "unary_expression_rule =
     CHOICE [
       SYMBOL ''postfix_expression'',
       SEQ [CHOICE [STRING ''++'', STRING ''--''], SYMBOL ''unary_expression''],
       SEQ [SYMBOL ''unary_operator'', SYMBOL ''cast_expression''],
       SEQ [
         STRING ''sizeof'',
         CHOICE [
           SYMBOL ''unary_expression'',
           SEQ [STRING ''('', SYMBOL ''type_name'', STRING '')'']]],
       SEQ [STRING ''_Alignof'', SEQ [STRING ''('', SYMBOL ''type_name'', STRING '')'']]]"

definition unary_operator_rule :: rule where
  "unary_operator_rule =
     CHOICE [
       STRING ''&'', STRING ''*'', STRING ''+'', STRING ''-'', STRING ''~'', STRING ''!'']"

definition postfix_expression_rule :: rule where
  "postfix_expression_rule =
     SEQ [
       SYMBOL ''primary_expression'',
       REPEAT (CHOICE [
                 SEQ [STRING ''['', SYMBOL ''expression'', STRING '']''],
                 SEQ [STRING ''('', OPTIONAL (SYMBOL ''argument_expression_list''), STRING '')''],
                 SEQ [STRING ''.'', SYMBOL ''identifier''],
                 SEQ [STRING ''->'', SYMBOL ''identifier''],
                 SEQ [STRING ''++''],
                 SEQ [STRING ''--'']])]"

definition primary_expression_rule :: rule where
  "primary_expression_rule =
     CHOICE [
       SYMBOL ''identifier'', SYMBOL ''number_literal'', SYMBOL ''string_literal'',
       SYMBOL ''character_literal'', SYMBOL ''parenthesized_expression'',
       SYMBOL ''compound_literal'']"

definition parenthesized_expression_rule :: rule where
  "parenthesized_expression_rule =
     SEQ [STRING ''('', SYMBOL ''expression'', STRING '')'']"

definition argument_expression_list_rule :: rule where
  "argument_expression_list_rule =
     SEQ [
       SYMBOL ''assignment_expression'',
       REPEAT (SEQ [STRING '','', SYMBOL ''assignment_expression''])]"

definition constant_expression_rule :: rule where
  "constant_expression_rule =
     SYMBOL ''conditional_expression''"

definition compound_literal_rule :: rule where
  "compound_literal_rule =
     SEQ [
       STRING ''('', SYMBOL ''type_name'', STRING '')'', SYMBOL ''compound_initializer'']"

definition compound_initializer_rule2 :: rule where
  "compound_initializer_rule2 =
     SEQ [STRING ''{'', OPTIONAL (SYMBOL ''initializer_list''), STRING ''}'']"

definition identifier_rule :: rule where
  "identifier_rule =
     PATTERN ''[a-zA-Z_][a-zA-Z0-9_]*''"

definition number_literal_rule :: rule where
  "number_literal_rule =
     CHOICE [
       PATTERN ([CHR 0x5C] @ ''d+'' @ [CHR 0x5C] @ ''.'' @ [CHR 0x5C] @ ''d+''),
       PATTERN ([CHR 0x5C] @ ''d+''), PATTERN ''0[xX][0-9a-fA-F]+'', PATTERN ''0[bB][01]+'',
       PATTERN ''0[0-7]+'']"

definition string_literal_rule :: rule where
  "string_literal_rule =
     PATTERN ([CHR 0x22] @ ''([^'' @ [CHR 0x22] @ [CHR 0x5C] @ [CHR 0x5C] @ '']|'' @
       [CHR 0x5C] @ [CHR 0x5C] @ ''.)*'' @ [CHR 0x22])"

definition character_literal_rule :: rule where
  "character_literal_rule =
     PATTERN ([CHR 0x27] @ ''([^'' @ [CHR 0x27] @ [CHR 0x5C] @ [CHR 0x5C] @ '']|'' @
       [CHR 0x5C] @ [CHR 0x5C] @ ''.)*'' @ [CHR 0x27])"

definition line_continuation_rule :: rule where
  "line_continuation_rule =
     PATTERN ([CHR 0x5C] @ [CHR 0x5C] @ ''['' @ [CHR 0x5C] @ ''r'' @ [CHR 0x5C] @ ''n]'')"

definition cspaced_rules :: "(string \<times> rule) list" where
  "cspaced_rules = [
     (''translation_unit'', translation_unit_rule),
     (''external_declaration'', external_declaration_rule),
     (''preproc_directive'', preproc_directive_rule),
     (''preproc_include'', preproc_include_rule),
     (''preproc_define'', preproc_define_rule),
     (''_preproc_define_value'', preproc_define_value_rule),
     (''preproc_if'', preproc_if_rule),
     (''preproc_ifdef'', preproc_ifdef_rule),
     (''preproc_else'', preproc_else_rule),
     (''preproc_endif'', preproc_endif_rule),
     (''preproc_undef'', preproc_undef_rule),
     (''preproc_pragma'', preproc_pragma_rule),
     (''preproc_line'', preproc_line_rule),
     (''preproc_error'', preproc_error_rule),
     (''_preproc_expression'', preproc_expression_rule),
     (''declaration'', declaration_rule),
     (''declaration_specifiers'', declaration_specifiers_rule),
     (''storage_class_specifier'', storage_class_specifier_rule),
     (''type_qualifier'', type_qualifier_rule),
     (''function_specifier'', function_specifier_rule),
     (''type_specifier'', type_specifier_rule),
     (''struct_specifier'', struct_specifier_rule),
     (''struct_declaration_list'', struct_declaration_list_rule),
     (''struct_declaration'', struct_declaration_rule),
     (''specifier_qualifier_list'', specifier_qualifier_list_rule),
     (''struct_declarator_list'', struct_declarator_list_rule),
     (''struct_declarator'', struct_declarator_rule),
     (''enum_specifier'', enum_specifier_rule),
     (''enumerator_list'', enumerator_list_rule),
     (''enumerator'', enumerator_rule),
     (''enumeration_constant'', enumeration_constant_rule),
     (''typedef_name'', typedef_name_rule),
     (''alignment_specifier'', alignment_specifier_rule),
     (''declarator'', declarator_rule),
     (''pointer'', pointer_rule),
     (''type_qualifier_list'', type_qualifier_list_rule),
     (''parameter_list'', parameter_list_rule),
     (''parameter_declaration'', parameter_declaration_rule),
     (''identifier_list'', identifier_list_rule),
     (''type_name'', type_name_rule),
     (''abstract_declarator'', abstract_declarator_rule),
     (''direct_abstract_declarator'', direct_abstract_declarator_rule),
     (''_init_declarator_list'', init_declarator_list_rule),
     (''_init_declarator'', init_declarator_rule),
     (''initializer'', initializer_rule),
     (''initializer_list'', initializer_list_rule),
     (''compound_initializer'', compound_initializer_rule),
     (''statement'', statement_rule),
     (''labeled_statement'', labeled_statement_rule),
     (''compound_statement'', compound_statement_rule),
     (''expression_statement'', expression_statement_rule),
     (''selection_statement'', selection_statement_rule),
     (''iteration_statement'', iteration_statement_rule),
     (''jump_statement'', jump_statement_rule),
     (''empty_statement'', empty_statement_rule),
     (''expression'', expression_rule),
     (''assignment_expression'', assignment_expression_rule),
     (''assignment_operator'', assignment_operator_rule),
     (''conditional_expression'', conditional_expression_rule),
     (''logical_or_expression'', logical_or_expression_rule),
     (''logical_and_expression'', logical_and_expression_rule),
     (''inclusive_or_expression'', inclusive_or_expression_rule),
     (''exclusive_or_expression'', exclusive_or_expression_rule),
     (''and_expression'', and_expression_rule),
     (''equality_expression'', equality_expression_rule),
     (''relational_expression'', relational_expression_rule),
     (''shift_expression'', shift_expression_rule),
     (''additive_expression'', additive_expression_rule),
     (''multiplicative_expression'', multiplicative_expression_rule),
     (''cast_expression'', cast_expression_rule),
     (''unary_expression'', unary_expression_rule),
     (''unary_operator'', unary_operator_rule),
     (''postfix_expression'', postfix_expression_rule),
     (''primary_expression'', primary_expression_rule),
     (''parenthesized_expression'', parenthesized_expression_rule),
     (''argument_expression_list'', argument_expression_list_rule),
     (''constant_expression'', constant_expression_rule),
     (''compound_literal'', compound_literal_rule),
     (''compound_initializer'', compound_initializer_rule2),
     (''identifier'', identifier_rule),
     (''number_literal'', number_literal_rule),
     (''string_literal'', string_literal_rule),
     (''character_literal'', character_literal_rule),
     (''_line_continuation'', line_continuation_rule)]"

definition cspaced :: grammar where
  "cspaced = \<lparr>
     name = ''cspaced'',
     extras = [PATTERN ([CHR 0x5C] @ ''s'')],
     word = ''identifier'',
     externals = [''_indent'', ''_dedent'', ''_newline''],
     precedences = [
       [PName ''multiplication'', PName ''addition'', PName ''shift'', PName ''relational'',
        PName ''equality'', PName ''bitwise_and'', PName ''bitwise_xor'', PName ''bitwise_or'',
        PName ''logical_and'', PName ''logical_or''],
       [PName ''assignment''],
       [PName ''unary''],
       [PName ''call'', PSym ''unary_expression''],
       [PName ''member'', PSym ''unary_expression''],
       [PName ''sizeof'', PSym ''unary_expression'']],
     conflicts = [
       [''expression_statement'', ''declaration''],
       [''compound_statement'', ''block_item_list'']],
     rules = cspaced_rules
   \<rparr>"

text \<open>
  Looking a rule up by name. In a JavaScript object literal a later occurrence of a key
  overwrites the earlier one, so the last binding of a name is the one in force: the
  rest of the list is searched first.
\<close>

fun last_binding :: "(string \<times> rule) list \<Rightarrow> string \<Rightarrow> rule option" where
  "last_binding [] n = None"
| "last_binding ((k, v) # ps) n =
     (case last_binding ps n of
        Some r \<Rightarrow> Some r
      | None \<Rightarrow> if k = n then Some v else None)"

definition rule_of :: "grammar \<Rightarrow> string \<Rightarrow> rule option" where
  "rule_of g n = last_binding (rules g) n"

text \<open>The start rule of a tree-sitter grammar is the first rule of the object.\<close>

definition start_rule :: "grammar \<Rightarrow> string" where
  "start_rule g = fst (hd (rules g))"

section \<open>Derivations\<close>

text \<open>
  A token is a terminal of the grammar as the lexer delivers it: the string literal it
  matched, the regular expression it matched, or an external token handed over by the
  external scanner. Whitespace never becomes a token: it is matched by \<open>extras\<close>.
\<close>

datatype token = Lit string | Rx string | Ext string

text \<open>
  A derivation tree mirrors the rule body it instantiates: one constructor per
  combinator, \<open>Alt i\<close> recording which member of a \<^verbatim>\<open>choice\<close> was taken and \<open>Rule n\<close>
  marking the node of the named rule \<open>n\<close>. Every named rule keeps its node, also the
  hidden ones whose name starts with an underscore. A reference \<^verbatim>\<open>$.n\<close> is instantiated by
  a node of the rule \<open>n\<close> when the grammar defines one, or by the external token \<open>n\<close> when
  \<open>n\<close> is listed in \<^verbatim>\<open>externals\<close>; a reference to a name that is neither derives nothing.
\<close>

datatype ptree =
    Tok token
  | Rule string ptree
  | Seq "ptree list"
  | Alt nat ptree
  | Rep "ptree list"
  | Opt "ptree option"

fun conforms :: "grammar \<Rightarrow> rule \<Rightarrow> ptree \<Rightarrow> bool" where
  "conforms g (SYMBOL n) (Rule m t) =
     (m = n \<and> (case rule_of g n of None \<Rightarrow> False | Some r \<Rightarrow> conforms g r t))"
| "conforms g (SYMBOL n) (Tok k) = (k = Ext n \<and> n \<in> set (externals g))"
| "conforms g (STRING s) (Tok k) = (k = Lit s)"
| "conforms g (PATTERN p) (Tok k) = (k = Rx p)"
| "conforms g (SEQ rs) (Seq ts) = list_all2 (conforms g) rs ts"
| "conforms g (CHOICE rs) (Alt i t) = (i < length rs \<and> conforms g (rs ! i) t)"
| "conforms g (REPEAT r) (Rep ts) = list_all (conforms g r) ts"
| "conforms g (REPEAT1 r) (Rep ts) = (ts \<noteq> [] \<and> list_all (conforms g r) ts)"
| "conforms g (OPTIONAL r) (Opt None) = True"
| "conforms g (OPTIONAL r) (Opt (Some t)) = conforms g r t"
| "conforms _ _ _ = False"

fun yield :: "ptree \<Rightarrow> token list" where
  "yield (Tok k) = [k]"
| "yield (Rule n t) = yield t"
| "yield (Seq ts) = concat (map yield ts)"
| "yield (Alt i t) = yield t"
| "yield (Rep ts) = concat (map yield ts)"
| "yield (Opt None) = []"
| "yield (Opt (Some t)) = yield t"

text \<open>The kinds of the nodes of a tree: the names of the rules it instantiates.\<close>

fun kinds :: "ptree \<Rightarrow> string list" where
  "kinds (Tok k) = []"
| "kinds (Rule n t) = n # kinds t"
| "kinds (Seq ts) = concat (map kinds ts)"
| "kinds (Alt i t) = kinds t"
| "kinds (Rep ts) = concat (map kinds ts)"
| "kinds (Opt None) = []"
| "kinds (Opt (Some t)) = kinds t"

definition derives :: "grammar \<Rightarrow> rule \<Rightarrow> token list \<Rightarrow> bool" where
  "derives g r ts = (\<exists>t. conforms g r t \<and> yield t = ts)"

text \<open>A token stream parses when the start rule derives it.\<close>

definition parses :: "grammar \<Rightarrow> token list \<Rightarrow> bool" where
  "parses g ts = derives g (SYMBOL (start_rule g)) ts"

section \<open>Which rules a derivation can use\<close>

text \<open>
  Three syntactic functions over rule bodies, relative to a list \<open>F\<close> of tokens that a
  token stream does not contain. A body is \<open>barred\<close> when every tree that instantiates it
  has a token of \<open>F\<close> in its yield, or when nothing instantiates it (a reference to a
  name that is neither a rule nor an external token). \<open>callees\<close> lists the rules a body can
  call in a derivation that avoids \<open>F\<close>, and \<open>terminals\<close> the tokens a body mentions.
  A list \<open>S\<close> of names is \<open>closed\<close> when the body of every rule of \<open>S\<close> calls only rules of
  \<open>S\<close>.
\<close>

fun barred :: "grammar \<Rightarrow> token list \<Rightarrow> rule \<Rightarrow> bool" where
  "barred g F (SYMBOL n) =
     (rule_of g n = None \<and> (n \<notin> set (externals g) \<or> Ext n \<in> set F))"
| "barred g F (STRING s) = (Lit s \<in> set F)"
| "barred g F (PATTERN p) = (Rx p \<in> set F)"
| "barred g F (SEQ rs) = list_ex (barred g F) rs"
| "barred g F (CHOICE rs) = list_all (barred g F) rs"
| "barred g F (REPEAT r) = False"
| "barred g F (REPEAT1 r) = barred g F r"
| "barred g F (OPTIONAL r) = False"

fun callees :: "grammar \<Rightarrow> token list \<Rightarrow> rule \<Rightarrow> string list" where
  "callees g F (SYMBOL n) = (if rule_of g n = None then [] else [n])"
| "callees g F (STRING s) = []"
| "callees g F (PATTERN p) = []"
| "callees g F (SEQ rs) =
     (if list_ex (barred g F) rs then [] else concat (map (callees g F) rs))"
| "callees g F (CHOICE rs) = concat (map (callees g F) rs)"
| "callees g F (REPEAT r) = callees g F r"
| "callees g F (REPEAT1 r) = callees g F r"
| "callees g F (OPTIONAL r) = callees g F r"

fun terminals :: "grammar \<Rightarrow> rule \<Rightarrow> token list" where
  "terminals g (SYMBOL n) = (if n \<in> set (externals g) then [Ext n] else [])"
| "terminals g (STRING s) = [Lit s]"
| "terminals g (PATTERN p) = [Rx p]"
| "terminals g (SEQ rs) = concat (map (terminals g) rs)"
| "terminals g (CHOICE rs) = concat (map (terminals g) rs)"
| "terminals g (REPEAT r) = terminals g r"
| "terminals g (REPEAT1 r) = terminals g r"
| "terminals g (OPTIONAL r) = terminals g r"

definition body_callees :: "grammar \<Rightarrow> token list \<Rightarrow> string \<Rightarrow> string list" where
  "body_callees g F n = (case rule_of g n of None \<Rightarrow> [] | Some r \<Rightarrow> callees g F r)"

definition body_terminals :: "grammar \<Rightarrow> string \<Rightarrow> token list" where
  "body_terminals g n = (case rule_of g n of None \<Rightarrow> [] | Some r \<Rightarrow> terminals g r)"

definition closed :: "grammar \<Rightarrow> token list \<Rightarrow> string list \<Rightarrow> bool" where
  "closed g F S = list_all (\<lambda>n. list_all (\<lambda>m. m \<in> set S) (body_callees g F n)) S"

definition reach_terminals :: "grammar \<Rightarrow> string list \<Rightarrow> token list" where
  "reach_terminals g S = concat (map (body_terminals g) S)"

text \<open>How often a kind occurs among the nodes of a tree.\<close>

definition count_kind :: "string \<Rightarrow> ptree \<Rightarrow> nat" where
  "count_kind k t = length (filter (\<lambda>n. n = k) (kinds t))"

text \<open>The names a rule body refers to.\<close>

fun symbols :: "rule \<Rightarrow> string list" where
  "symbols (SYMBOL n) = [n]"
| "symbols (STRING s) = []"
| "symbols (PATTERN p) = []"
| "symbols (SEQ rs) = concat (map symbols rs)"
| "symbols (CHOICE rs) = concat (map symbols rs)"
| "symbols (REPEAT r) = symbols r"
| "symbols (REPEAT1 r) = symbols r"
| "symbols (OPTIONAL r) = symbols r"

definition rule_names :: "grammar \<Rightarrow> string list" where
  "rule_names g = map fst (rules g)"

text \<open>
  The rules that the start rule \<^verbatim>\<open>translation_unit\<close> can reach: every rule of the grammar
  but the seven statement rules and \<^verbatim>\<open>_line_continuation\<close>.
\<close>

definition top_level_names :: "string list" where
  "top_level_names = [
     ''translation_unit'', ''external_declaration'', ''preproc_directive'',
     ''preproc_include'', ''preproc_define'', ''_preproc_define_value'', ''preproc_if'',
     ''preproc_ifdef'', ''preproc_else'', ''preproc_endif'', ''preproc_undef'',
     ''preproc_pragma'', ''preproc_line'', ''preproc_error'', ''_preproc_expression'',
     ''declaration'', ''declaration_specifiers'', ''storage_class_specifier'',
     ''type_qualifier'', ''function_specifier'', ''type_specifier'', ''struct_specifier'',
     ''struct_declaration_list'', ''struct_declaration'', ''specifier_qualifier_list'',
     ''struct_declarator_list'', ''struct_declarator'', ''enum_specifier'',
     ''enumerator_list'', ''enumerator'', ''enumeration_constant'', ''typedef_name'',
     ''alignment_specifier'', ''declarator'', ''pointer'', ''type_qualifier_list'',
     ''parameter_list'', ''parameter_declaration'', ''identifier_list'', ''type_name'',
     ''abstract_declarator'', ''direct_abstract_declarator'', ''_init_declarator_list'',
     ''_init_declarator'', ''initializer'', ''initializer_list'',
     ''compound_initializer'', ''empty_statement'', ''expression'',
     ''assignment_expression'', ''assignment_operator'', ''conditional_expression'',
     ''logical_or_expression'', ''logical_and_expression'', ''inclusive_or_expression'',
     ''exclusive_or_expression'', ''and_expression'', ''equality_expression'',
     ''relational_expression'', ''shift_expression'', ''additive_expression'',
     ''multiplicative_expression'', ''cast_expression'', ''unary_expression'',
     ''unary_operator'', ''postfix_expression'', ''primary_expression'',
     ''parenthesized_expression'', ''argument_expression_list'', ''constant_expression'',
     ''compound_literal'', ''identifier'', ''number_literal'', ''string_literal'',
     ''character_literal'']"

text \<open>The tokens that only the statement rules mention.\<close>

definition statement_tokens :: "token list" where
  "statement_tokens =
     [Ext ''_indent'', Ext ''_dedent'', Lit ''if'', Lit ''else'', Lit ''switch'',
      Lit ''case'', Lit ''default'', Lit ''while'', Lit ''do'', Lit ''for'', Lit ''goto'',
      Lit ''continue'', Lit ''break'', Lit ''return'']"

section \<open>Sample inputs\<close>

text \<open>
  The token streams of the inputs the specification names, and derivation trees for
  them. An identifier is the token of the pattern of \<^verbatim>\<open>identifier\<close>, a decimal integer
  the token of the second pattern of \<^verbatim>\<open>number_literal\<close>, a keyword or a punctuation mark
  the token of its string literal. The external scanner is not part of the sources: the
  structural tokens stand where section 4.1 of the specification puts them, \<^verbatim>\<open>_indent\<close>
  before the first token of a deeper line and \<^verbatim>\<open>_dedent\<close> at the end of the input for the
  block still open.
\<close>

definition ident :: token where
  "ident = Rx ''[a-zA-Z_][a-zA-Z0-9_]*''"

definition int_literal :: token where
  "int_literal = Rx ([CHR 0x5C] @ ''d+'')"

text \<open>\<^verbatim>\<open>if (n <= 1):\<close>, a line break, and the deeper line \<^verbatim>\<open>return n\<close>.\<close>

definition if_input :: "token list" where
  "if_input =
     [Lit ''if'', Lit ''('', ident, Lit ''<='', int_literal, Lit '')'', Lit '':'',
      Ext ''_indent'', Lit ''return'', ident, Ext ''_dedent'']"

text \<open>\<^verbatim>\<open>switch (x) { case 1: foo() case 2: bar() }\<close>\<close>

definition switch_input :: "token list" where
  "switch_input =
     [Lit ''switch'', Lit ''('', ident, Lit '')'', Lit ''{'',
      Lit ''case'', int_literal, Lit '':'', ident, Lit ''('', Lit '')'',
      Lit ''case'', int_literal, Lit '':'', ident, Lit ''('', Lit '')'', Lit ''}'']"

text \<open>\<^verbatim>\<open>int main(void):\<close>, a line break, and the deeper line \<^verbatim>\<open>return 0\<close>.\<close>

definition function_input :: "token list" where
  "function_input =
     [Lit ''int'', ident, Lit ''('', Lit ''void'', Lit '')'', Lit '':'',
      Ext ''_indent'', Lit ''return'', int_literal, Ext ''_dedent'']"

text \<open>\<^verbatim>\<open>MyType x\<close> and \<^verbatim>\<open>foo(x)\<close>.\<close>

definition typed_input :: "token list" where
  "typed_input = [ident, ident]"

definition call_input :: "token list" where
  "call_input = [ident, Lit ''('', ident, Lit '')'']"

text \<open>\<^verbatim>\<open>a - b - c\<close> and \<^verbatim>\<open>a = b = c\<close>.\<close>

definition minus_input :: "token list" where
  "minus_input = [ident, Lit ''-'', ident, Lit ''-'', ident]"

definition assign_input :: "token list" where
  "assign_input = [ident, Lit ''='', ident, Lit ''='', ident]"

text \<open>
  Pieces of derivation trees. The ten binary levels are listed from the tightest to the
  loosest; \<open>lift ns t\<close> wraps \<open>t\<close> as the only operand of each level of \<open>ns\<close> in turn,
  \<open>operand\<close> turns a postfix expression into a cast expression, and \<open>plain_expression\<close>
  turns a \<^verbatim>\<open>logical_or_expression\<close> into an \<^verbatim>\<open>expression\<close> without \<^verbatim>\<open>?:\<close>, assignment or
  comma.
\<close>

definition binary_levels :: "string list" where
  "binary_levels =
     [''multiplicative_expression'', ''additive_expression'', ''shift_expression'',
      ''relational_expression'', ''equality_expression'', ''and_expression'',
      ''exclusive_or_expression'', ''inclusive_or_expression'', ''logical_and_expression'',
      ''logical_or_expression'']"

fun lift :: "string list \<Rightarrow> ptree \<Rightarrow> ptree" where
  "lift [] t = t"
| "lift (n # ns) t = lift ns (Rule n (Seq [t, Rep []]))"

definition identifier_node :: ptree where
  "identifier_node = Rule ''identifier'' (Tok ident)"

definition number_node :: ptree where
  "number_node = Rule ''number_literal'' (Alt 1 (Tok int_literal))"

definition postfix :: "ptree \<Rightarrow> ptree list \<Rightarrow> ptree" where
  "postfix a suffixes = Rule ''postfix_expression'' (Seq [Rule ''primary_expression'' a, Rep suffixes])"

definition ident_postfix :: ptree where
  "ident_postfix = postfix (Alt 0 identifier_node) []"

definition number_postfix :: ptree where
  "number_postfix = postfix (Alt 1 number_node) []"

definition operand :: "ptree \<Rightarrow> ptree" where
  "operand p = Rule ''cast_expression'' (Alt 1 (Rule ''unary_expression'' (Alt 0 p)))"

definition conditional :: "ptree \<Rightarrow> ptree" where
  "conditional l = Rule ''conditional_expression'' (Seq [l, Opt None])"

definition plain_expression :: "ptree \<Rightarrow> ptree" where
  "plain_expression l =
     Rule ''expression'' (Seq [Rule ''assignment_expression'' (Alt 0 (conditional l)), Rep []])"

definition ident_expression :: ptree where
  "ident_expression = plain_expression (lift binary_levels (operand ident_postfix))"

definition parenthesized :: "ptree \<Rightarrow> ptree" where
  "parenthesized e = Rule ''parenthesized_expression'' (Seq [Tok (Lit ''(''), e, Tok (Lit '')'')])"

definition block :: "ptree list \<Rightarrow> ptree" where
  "block items =
     Rule ''compound_statement''
       (Seq [Tok (Lit '':''), Tok (Ext ''_indent''), Rep items, Tok (Ext ''_dedent'')])"

text \<open>\<^verbatim>\<open>n <= 1\<close> as an \<^verbatim>\<open>expression\<close>.\<close>

definition comparison :: ptree where
  "comparison =
     plain_expression
       (lift [''equality_expression'', ''and_expression'', ''exclusive_or_expression'',
              ''inclusive_or_expression'', ''logical_and_expression'', ''logical_or_expression'']
         (Rule ''relational_expression''
           (Seq [lift [''multiplicative_expression'', ''additive_expression'', ''shift_expression'']
                   (operand ident_postfix),
                 Rep [Seq [Alt 1 (Tok (Lit ''<='')),
                           lift [''multiplicative_expression'', ''additive_expression'',
                                 ''shift_expression'']
                             (operand number_postfix)]]])))"

text \<open>\<^verbatim>\<open>return n\<close> as a \<^verbatim>\<open>statement\<close>.\<close>

definition return_ident :: ptree where
  "return_ident =
     Rule ''statement'' (Alt 5 (Rule ''jump_statement''
       (Seq [Alt 3 (Seq [Tok (Lit ''return''), Opt (Some ident_expression)]), Opt None])))"

definition if_tree :: ptree where
  "if_tree =
     Rule ''selection_statement''
       (Alt 0 (Seq [Tok (Lit ''if''), parenthesized comparison, block [Alt 0 return_ident],
                    Opt None]))"

text \<open>\<^verbatim>\<open>case 1: foo()\<close> as a \<^verbatim>\<open>labeled_statement\<close>.\<close>

definition case_call :: ptree where
  "case_call =
     Rule ''labeled_statement''
       (Alt 1 (Seq [Tok (Lit ''case''),
                    Rule ''constant_expression''
                      (conditional (lift binary_levels (operand number_postfix))),
                    Tok (Lit '':''),
                    Rule ''statement'' (Alt 2 (Rule ''expression_statement''
                      (Seq [plain_expression (lift binary_levels (operand
                              (postfix (Alt 0 identifier_node)
                                 [Alt 1 (Seq [Tok (Lit ''(''), Opt None, Tok (Lit '')'')])]))),
                            Opt None])))]))"

definition switch_tree :: ptree where
  "switch_tree =
     Rule ''selection_statement''
       (Alt 1 (Seq [Tok (Lit ''switch''), parenthesized ident_expression, Tok (Lit ''{''),
                    Rep [case_call, case_call], Tok (Lit ''}'')]))"

text \<open>A declaration whose only specifier is a \<^verbatim>\<open>typedef_name\<close>, with one declarator.\<close>

definition typedef_declaration :: "ptree \<Rightarrow> ptree" where
  "typedef_declaration d =
     Rule ''declaration''
       (Seq [Rule ''declaration_specifiers''
               (Rep [Alt 3 (Rule ''type_specifier'' (Alt 15 (Rule ''typedef_name'' identifier_node)))]),
             Opt (Some (Rule ''_init_declarator_list''
               (Seq [Rule ''_init_declarator'' (Seq [d, Opt None]), Rep []]))),
             Opt None])"

text \<open>\<^verbatim>\<open>MyType x\<close> as a declaration.\<close>

definition typed_declaration :: ptree where
  "typed_declaration = typedef_declaration (Rule ''declarator'' (Alt 0 identifier_node))"

text \<open>\<^verbatim>\<open>foo(x)\<close> as an expression statement: a call with one argument.\<close>

definition call_statement :: ptree where
  "call_statement =
     Rule ''expression_statement''
       (Seq [plain_expression (lift binary_levels (operand
               (postfix (Alt 0 identifier_node)
                  [Alt 1 (Seq [Tok (Lit ''(''),
                               Opt (Some (Rule ''argument_expression_list''
                                 (Seq [Rule ''assignment_expression''
                                         (Alt 0 (conditional
                                            (lift binary_levels (operand ident_postfix)))),
                                       Rep []]))),
                               Tok (Lit '')'')])]))),
             Opt None])"

text \<open>
  \<^verbatim>\<open>foo(x)\<close> as a declaration: the type \<^verbatim>\<open>foo\<close> and the parenthesised declarator \<^verbatim>\<open>(x)\<close>;
  and the same as a whole translation unit.
\<close>

definition call_declaration :: ptree where
  "call_declaration =
     typedef_declaration
       (Rule ''declarator''
          (Alt 1 (Seq [Tok (Lit ''(''), Rule ''declarator'' (Alt 0 identifier_node),
                       Tok (Lit '')'')])))"

definition call_unit :: ptree where
  "call_unit =
     Rule ''translation_unit'' (Rep [Alt 0 (Rule ''external_declaration'' (Alt 1 call_declaration))])"

text \<open>A block with no statement, alone and as the body of \<^verbatim>\<open>while (x):\<close>.\<close>

definition empty_block :: ptree where
  "empty_block = block []"

definition empty_while :: ptree where
  "empty_while =
     Rule ''statement'' (Alt 4 (Rule ''iteration_statement''
       (Alt 0 (Seq [Tok (Lit ''while''), parenthesized ident_expression, empty_block]))))"

text \<open>\<^verbatim>\<open>a - b - c\<close> as an \<^verbatim>\<open>additive_expression\<close>: one node, three operands.\<close>

definition minus_chain :: ptree where
  "minus_chain =
     Rule ''additive_expression''
       (Seq [lift [''multiplicative_expression''] (operand ident_postfix),
             Rep [Seq [Alt 1 (Tok (Lit ''-'')),
                       lift [''multiplicative_expression''] (operand ident_postfix)],
                  Seq [Alt 1 (Tok (Lit ''-'')),
                       lift [''multiplicative_expression''] (operand ident_postfix)]]])"

text \<open>\<^verbatim>\<open>a = b = c\<close> as an \<^verbatim>\<open>assignment_expression\<close>: the right operand is \<^verbatim>\<open>b = c\<close>.\<close>

definition assignment :: "ptree \<Rightarrow> ptree" where
  "assignment rhs =
     Rule ''assignment_expression''
       (Alt 1 (Seq [Rule ''unary_expression'' (Alt 0 ident_postfix),
                    Rule ''assignment_operator'' (Alt 0 (Tok (Lit ''=''))), rhs]))"

definition assign_chain :: ptree where
  "assign_chain =
     assignment (assignment (Rule ''assignment_expression''
       (Alt 0 (conditional (lift binary_levels (operand ident_postfix))))))"

section \<open>The precedence ladder\<close>

text \<open>
  The operators of the ten binary levels and the operand of each, from the tightest level
  to the loosest, as the rules \<^verbatim>\<open>multiplicative_expression\<close> to \<^verbatim>\<open>logical_or_expression\<close>
  pass them to \<^verbatim>\<open>binary_expression\<close>.
\<close>

definition level_operators :: "rule list" where
  "level_operators =
     [CHOICE [STRING ''*'', STRING ''/'', STRING ''%''],
      CHOICE [STRING ''+'', STRING ''-''],
      CHOICE [STRING ''<<'', STRING ''>>''],
      CHOICE [STRING ''<'', STRING ''<='', STRING ''>'', STRING ''>=''],
      CHOICE [STRING ''=='', STRING ''!=''],
      STRING ''&'', STRING ''^'', STRING ''|'', STRING ''&&'', STRING ''||'']"

definition level_operands :: "string list" where
  "level_operands = ''cast_expression'' # butlast binary_levels"

text \<open>
  The rules below the binary levels, and the opening brackets. A derivation from
  \<^verbatim>\<open>cast_expression\<close> whose yield has no opening bracket uses these rules only.
\<close>

definition tight_names :: "string list" where
  "tight_names =
     [''cast_expression'', ''unary_expression'', ''unary_operator'', ''postfix_expression'',
      ''primary_expression'', ''identifier'', ''number_literal'', ''string_literal'',
      ''character_literal'', ''parenthesized_expression'', ''compound_literal'']"

definition brackets :: "token list" where
  "brackets = [Lit ''('', Lit ''['', Lit ''{'']"

text \<open>The rules strictly tighter than the binary level \<open>i\<close>.\<close>

definition below :: "nat \<Rightarrow> string list" where
  "below i = take i binary_levels @ tight_names"

text \<open>
  A token stream nests at a rule when one of its derivations from that rule has a
  second node of the same rule inside.
\<close>

definition nests :: "grammar \<Rightarrow> string \<Rightarrow> token list \<Rightarrow> bool" where
  "nests g L ts = (\<exists>t. conforms g (SYMBOL L) t \<and> yield t = ts \<and> 1 < count_kind L t)"

section \<open>How long a token stream a rule can derive\<close>













section \<open>Looking rules up\<close>

text \<open>
  The rule in force for every name the object defines. None of
  \<^verbatim>\<open>function_definition\<close>, \<^verbatim>\<open>union_specifier\<close> and \<^verbatim>\<open>_parenthesized_parameter_list\<close> is
  among them.
\<close>

lemma rules_cspaced: "rules cspaced = cspaced_rules"
  by (simp add: cspaced_def)

lemmas lookup_simps =
  rule_of_def rules_cspaced cspaced_rules_def last_binding.simps list.inject list.distinct
  char.inject simp_thms if_True if_False option.case

lemma rule_of_cspaced:
  "rule_of cspaced ''translation_unit'' = Some translation_unit_rule"
  "rule_of cspaced ''external_declaration'' = Some external_declaration_rule"
  "rule_of cspaced ''preproc_directive'' = Some preproc_directive_rule"
  "rule_of cspaced ''preproc_include'' = Some preproc_include_rule"
  "rule_of cspaced ''preproc_define'' = Some preproc_define_rule"
  "rule_of cspaced ''_preproc_define_value'' = Some preproc_define_value_rule"
  "rule_of cspaced ''preproc_if'' = Some preproc_if_rule"
  "rule_of cspaced ''preproc_ifdef'' = Some preproc_ifdef_rule"
  "rule_of cspaced ''preproc_else'' = Some preproc_else_rule"
  "rule_of cspaced ''preproc_endif'' = Some preproc_endif_rule"
  "rule_of cspaced ''preproc_undef'' = Some preproc_undef_rule"
  "rule_of cspaced ''preproc_pragma'' = Some preproc_pragma_rule"
  "rule_of cspaced ''preproc_line'' = Some preproc_line_rule"
  "rule_of cspaced ''preproc_error'' = Some preproc_error_rule"
  "rule_of cspaced ''_preproc_expression'' = Some preproc_expression_rule"
  "rule_of cspaced ''declaration'' = Some declaration_rule"
  "rule_of cspaced ''declaration_specifiers'' = Some declaration_specifiers_rule"
  "rule_of cspaced ''storage_class_specifier'' = Some storage_class_specifier_rule"
  "rule_of cspaced ''type_qualifier'' = Some type_qualifier_rule"
  "rule_of cspaced ''function_specifier'' = Some function_specifier_rule"
  "rule_of cspaced ''type_specifier'' = Some type_specifier_rule"
  "rule_of cspaced ''struct_specifier'' = Some struct_specifier_rule"
  "rule_of cspaced ''struct_declaration_list'' = Some struct_declaration_list_rule"
  "rule_of cspaced ''struct_declaration'' = Some struct_declaration_rule"
  "rule_of cspaced ''specifier_qualifier_list'' = Some specifier_qualifier_list_rule"
  "rule_of cspaced ''struct_declarator_list'' = Some struct_declarator_list_rule"
  "rule_of cspaced ''struct_declarator'' = Some struct_declarator_rule"
  "rule_of cspaced ''enum_specifier'' = Some enum_specifier_rule"
  "rule_of cspaced ''enumerator_list'' = Some enumerator_list_rule"
  "rule_of cspaced ''enumerator'' = Some enumerator_rule"
  "rule_of cspaced ''enumeration_constant'' = Some enumeration_constant_rule"
  "rule_of cspaced ''typedef_name'' = Some typedef_name_rule"
  "rule_of cspaced ''alignment_specifier'' = Some alignment_specifier_rule"
  "rule_of cspaced ''declarator'' = Some declarator_rule"
  "rule_of cspaced ''pointer'' = Some pointer_rule"
  "rule_of cspaced ''type_qualifier_list'' = Some type_qualifier_list_rule"
  "rule_of cspaced ''parameter_list'' = Some parameter_list_rule"
  "rule_of cspaced ''parameter_declaration'' = Some parameter_declaration_rule"
  "rule_of cspaced ''identifier_list'' = Some identifier_list_rule"
  "rule_of cspaced ''type_name'' = Some type_name_rule"
  "rule_of cspaced ''abstract_declarator'' = Some abstract_declarator_rule"
  "rule_of cspaced ''direct_abstract_declarator'' = Some direct_abstract_declarator_rule"
  "rule_of cspaced ''_init_declarator_list'' = Some init_declarator_list_rule"
  "rule_of cspaced ''_init_declarator'' = Some init_declarator_rule"
  "rule_of cspaced ''initializer'' = Some initializer_rule"
  "rule_of cspaced ''initializer_list'' = Some initializer_list_rule"
  "rule_of cspaced ''compound_initializer'' = Some compound_initializer_rule2"
  "rule_of cspaced ''statement'' = Some statement_rule"
  "rule_of cspaced ''labeled_statement'' = Some labeled_statement_rule"
  "rule_of cspaced ''compound_statement'' = Some compound_statement_rule"
  "rule_of cspaced ''expression_statement'' = Some expression_statement_rule"
  "rule_of cspaced ''selection_statement'' = Some selection_statement_rule"
  "rule_of cspaced ''iteration_statement'' = Some iteration_statement_rule"
  "rule_of cspaced ''jump_statement'' = Some jump_statement_rule"
  "rule_of cspaced ''empty_statement'' = Some empty_statement_rule"
  "rule_of cspaced ''expression'' = Some expression_rule"
  "rule_of cspaced ''assignment_expression'' = Some assignment_expression_rule"
  "rule_of cspaced ''assignment_operator'' = Some assignment_operator_rule"
  "rule_of cspaced ''conditional_expression'' = Some conditional_expression_rule"
  "rule_of cspaced ''logical_or_expression'' = Some logical_or_expression_rule"
  "rule_of cspaced ''logical_and_expression'' = Some logical_and_expression_rule"
  "rule_of cspaced ''inclusive_or_expression'' = Some inclusive_or_expression_rule"
  "rule_of cspaced ''exclusive_or_expression'' = Some exclusive_or_expression_rule"
  "rule_of cspaced ''and_expression'' = Some and_expression_rule"
  "rule_of cspaced ''equality_expression'' = Some equality_expression_rule"
  "rule_of cspaced ''relational_expression'' = Some relational_expression_rule"
  "rule_of cspaced ''shift_expression'' = Some shift_expression_rule"
  "rule_of cspaced ''additive_expression'' = Some additive_expression_rule"
  "rule_of cspaced ''multiplicative_expression'' = Some multiplicative_expression_rule"
  "rule_of cspaced ''cast_expression'' = Some cast_expression_rule"
  "rule_of cspaced ''unary_expression'' = Some unary_expression_rule"
  "rule_of cspaced ''unary_operator'' = Some unary_operator_rule"
  "rule_of cspaced ''postfix_expression'' = Some postfix_expression_rule"
  "rule_of cspaced ''primary_expression'' = Some primary_expression_rule"
  "rule_of cspaced ''parenthesized_expression'' = Some parenthesized_expression_rule"
  "rule_of cspaced ''argument_expression_list'' = Some argument_expression_list_rule"
  "rule_of cspaced ''constant_expression'' = Some constant_expression_rule"
  "rule_of cspaced ''compound_literal'' = Some compound_literal_rule"
  "rule_of cspaced ''identifier'' = Some identifier_rule"
  "rule_of cspaced ''number_literal'' = Some number_literal_rule"
  "rule_of cspaced ''string_literal'' = Some string_literal_rule"
  "rule_of cspaced ''character_literal'' = Some character_literal_rule"
  "rule_of cspaced ''_line_continuation'' = Some line_continuation_rule"
  by (simp_all only: lookup_simps)

lemma externals_cspaced: "externals cspaced = [''_indent'', ''_dedent'', ''_newline'']"
  by (simp add: cspaced_def)

lemmas rule_defs =
  translation_unit_rule_def external_declaration_rule_def preproc_directive_rule_def
  preproc_include_rule_def preproc_define_rule_def preproc_define_value_rule_def
  preproc_if_rule_def preproc_ifdef_rule_def preproc_else_rule_def preproc_endif_rule_def
  preproc_undef_rule_def preproc_pragma_rule_def preproc_line_rule_def
  preproc_error_rule_def preproc_expression_rule_def declaration_rule_def
  declaration_specifiers_rule_def storage_class_specifier_rule_def type_qualifier_rule_def
  function_specifier_rule_def type_specifier_rule_def struct_specifier_rule_def
  struct_declaration_list_rule_def struct_declaration_rule_def
  specifier_qualifier_list_rule_def struct_declarator_list_rule_def
  struct_declarator_rule_def enum_specifier_rule_def enumerator_list_rule_def
  enumerator_rule_def enumeration_constant_rule_def typedef_name_rule_def
  alignment_specifier_rule_def declarator_rule_def pointer_rule_def
  type_qualifier_list_rule_def parameter_list_rule_def parameter_declaration_rule_def
  identifier_list_rule_def type_name_rule_def abstract_declarator_rule_def
  direct_abstract_declarator_rule_def init_declarator_list_rule_def init_declarator_rule_def
  initializer_rule_def initializer_list_rule_def compound_initializer_rule_def
  statement_rule_def labeled_statement_rule_def compound_statement_rule_def
  expression_statement_rule_def selection_statement_rule_def iteration_statement_rule_def
  jump_statement_rule_def empty_statement_rule_def expression_rule_def
  assignment_expression_rule_def assignment_operator_rule_def
  conditional_expression_rule_def logical_or_expression_rule_def
  logical_and_expression_rule_def inclusive_or_expression_rule_def
  exclusive_or_expression_rule_def and_expression_rule_def equality_expression_rule_def
  relational_expression_rule_def shift_expression_rule_def additive_expression_rule_def
  multiplicative_expression_rule_def cast_expression_rule_def unary_expression_rule_def
  unary_operator_rule_def postfix_expression_rule_def primary_expression_rule_def
  parenthesized_expression_rule_def argument_expression_list_rule_def
  constant_expression_rule_def compound_literal_rule_def compound_initializer_rule2_def
  identifier_rule_def number_literal_rule_def string_literal_rule_def
  character_literal_rule_def line_continuation_rule_def

text \<open>
  The rewrite rules that run \<open>conforms\<close>, \<open>yield\<close> and \<open>kinds\<close> on a concrete tree of
  the grammar.
\<close>

lemmas run_simps =
  conforms.simps yield.simps kinds.simps rule_of_cspaced rule_defs binary_expression_def
  externals_cspaced list_all2_Cons list_all2_Nil list_all2_Nil2 list.pred_inject
  nth_Cons_0 nth_Cons_Suc numeral_eq_Suc pred_numeral_simps BitM.simps One_nat_def
  list.size Suc_less_eq zero_less_Suc not_less_zero add_Suc_right add_0_right
  list.set insert_iff empty_iff list.map concat.simps append.simps
  list.inject list.distinct char.inject token.inject token.distinct
  option.case option.inject option.distinct simp_thms if_True if_False

lemma start_rule_cspaced: "start_rule cspaced = ''translation_unit''"
  by (simp add: start_rule_def cspaced_def cspaced_rules_def)

lemma rule_of_undefined:
  "rule_of cspaced ''function_definition'' = None"
  "rule_of cspaced ''union_specifier'' = None"
  "rule_of cspaced ''_parenthesized_parameter_list'' = None"
  "rule_of cspaced ''block_item_list'' = None"
  "rule_of cspaced ''_indent'' = None"
  "rule_of cspaced ''_dedent'' = None"
  "rule_of cspaced ''_newline'' = None"
  by (simp_all only: lookup_simps)

section \<open>Derivations stay inside a closed set of rules\<close>

lemma list_all2_pick:
  "list_all2 P xs ys \<Longrightarrow> y \<in> set ys \<Longrightarrow> \<exists>x \<in> set xs. P x y"
  by (induction rule: list_all2_induct) auto

lemma list_all2_pick_left:
  "list_all2 P xs ys \<Longrightarrow> x \<in> set xs \<Longrightarrow> \<exists>y \<in> set ys. P x y"
  by (induction rule: list_all2_induct) auto

lemma kinds_defined:
  "conforms g r t \<Longrightarrow> k \<in> set (kinds t) \<Longrightarrow> rule_of g k \<noteq> None"
proof (induction t arbitrary: r)
  case (Tok x)
  then show ?case by simp
next
  case (Rule m t)
  then show ?case by (cases r) (auto split: option.splits)
next
  case (Seq ts)
  then show ?case by (cases r) (auto dest: list_all2_pick)
next
  case (Alt i t)
  then show ?case by (cases r) auto
next
  case (Rep ts)
  then show ?case by (cases r) (auto simp: list_all_iff)
next
  case (Opt x)
  then show ?case by (cases r; cases x) auto
qed

lemma barred_sound:
  "conforms g r t \<Longrightarrow> barred g F r \<Longrightarrow> set (yield t) \<inter> set F \<noteq> {}"
proof (induction t arbitrary: r)
  case (Tok x)
  then show ?case by (cases r) auto
next
  case (Rule m t)
  then show ?case by (cases r) (auto split: option.splits)
next
  case (Seq ts)
  show ?case
  proof (cases r)
    case (SEQ rs)
    with Seq.prems obtain x where x: "x \<in> set rs" "barred g F x"
      by (auto simp: list_ex_iff)
    from SEQ Seq.prems have "list_all2 (conforms g) rs ts" by simp
    with x obtain y where y: "y \<in> set ts" "conforms g x y"
      by (blast dest: list_all2_pick_left)
    with x Seq.IH have "set (yield y) \<inter> set F \<noteq> {}" by blast
    with y show ?thesis by auto
  qed (use Seq.prems in auto)
next
  case (Alt i t)
  show ?case
  proof (cases r)
    case (CHOICE rs)
    with Alt.prems have "conforms g (rs ! i) t" "barred g F (rs ! i)"
      by (auto simp: list_all_iff)
    with Alt.IH show ?thesis by simp
  qed (use Alt.prems in auto)
next
  case (Rep ts)
  show ?case
  proof (cases r)
    case (REPEAT1 r')
    with Rep.prems obtain y where y: "y \<in> set ts" "conforms g r' y" "barred g F r'"
      by (cases ts) auto
    with Rep.IH have "set (yield y) \<inter> set F \<noteq> {}" by blast
    with y show ?thesis by auto
  qed (use Rep.prems in auto)
next
  case (Opt x)
  then show ?case by (cases r; cases x) auto
qed

lemma avoiding_closed:
  assumes cl: "closed g F S"
  shows "conforms g r t \<Longrightarrow> set (yield t) \<inter> set F = {} \<Longrightarrow>
         set (callees g F r) \<subseteq> set S \<Longrightarrow>
         set (kinds t) \<subseteq> set S \<and>
         set (yield t) \<subseteq> set (terminals g r) \<union> (\<Union>n \<in> set S. set (body_terminals g n))"
proof (induction t arbitrary: r)
  case (Tok x)
  then show ?case by (cases r) auto
next
  case (Rule m t)
  show ?case
  proof (cases r)
    case (SYMBOL n)
    with Rule.prems obtain r' where r': "m = n" "rule_of g n = Some r'" "conforms g r' t"
      by (auto split: option.splits)
    with SYMBOL Rule.prems have nS: "n \<in> set S" by simp
    with cl r' have "set (callees g F r') \<subseteq> set S"
      by (auto simp: closed_def list_all_iff body_callees_def)
    with Rule.IH [OF r'(3)] Rule.prems(2)
    have "set (kinds t) \<subseteq> set S"
      and "set (yield t) \<subseteq> set (terminals g r') \<union> (\<Union>n \<in> set S. set (body_terminals g n))"
      by auto
    moreover have "set (terminals g r') \<subseteq> (\<Union>n \<in> set S. set (body_terminals g n))"
      using nS r' by (auto simp: body_terminals_def)
    ultimately show ?thesis using SYMBOL r' nS by auto
  qed (use Rule.prems in auto)
next
  case (Seq ts)
  show ?case
  proof (cases r)
    case (SEQ rs)
    with Seq.prems have l2: "list_all2 (conforms g) rs ts" by simp
    have nb: "\<not> list_ex (barred g F) rs"
    proof
      assume "list_ex (barred g F) rs"
      then have "barred g F r" using SEQ by simp
      from barred_sound [OF Seq.prems(1) this] Seq.prems(2) show False by simp
    qed
    have each: "set (kinds y) \<subseteq> set S \<and>
        set (yield y) \<subseteq> set (terminals g r) \<union> (\<Union>n \<in> set S. set (body_terminals g n))"
      if y: "y \<in> set ts" for y
    proof -
      from l2 y obtain x where x: "x \<in> set rs" "conforms g x y"
        by (blast dest: list_all2_pick)
      from y Seq.prems(2) have "set (yield y) \<inter> set F = {}" by auto
      moreover from x nb SEQ Seq.prems(3) have "set (callees g F x) \<subseteq> set S" by auto
      ultimately have "set (kinds y) \<subseteq> set S \<and>
        set (yield y) \<subseteq> set (terminals g x) \<union> (\<Union>n \<in> set S. set (body_terminals g n))"
        using Seq.IH [OF y x(2)] by blast
      moreover from x SEQ have "set (terminals g x) \<subseteq> set (terminals g r)" by auto
      ultimately show ?thesis by blast
    qed
    then show ?thesis by auto
  qed (use Seq.prems in auto)
next
  case (Alt i t)
  show ?case
  proof (cases r)
    case (CHOICE rs)
    with Alt.prems have i: "i < length rs" "conforms g (rs ! i) t" by auto
    then have mem: "rs ! i \<in> set rs" by simp
    with CHOICE Alt.prems(3) have "set (callees g F (rs ! i)) \<subseteq> set S" by auto
    with Alt.IH [OF i(2)] Alt.prems(2)
    have "set (kinds t) \<subseteq> set S \<and>
        set (yield t) \<subseteq> set (terminals g (rs ! i)) \<union> (\<Union>n \<in> set S. set (body_terminals g n))"
      by simp
    moreover from mem CHOICE have "set (terminals g (rs ! i)) \<subseteq> set (terminals g r)" by auto
    ultimately show ?thesis by auto
  qed (use Alt.prems in auto)
next
  case (Rep ts)
  have each: "set (kinds y) \<subseteq> set S \<and>
      set (yield y) \<subseteq> set (terminals g r) \<union> (\<Union>n \<in> set S. set (body_terminals g n))"
    if y: "y \<in> set ts" for y
  proof -
    from y Rep.prems(2) have av: "set (yield y) \<inter> set F = {}" by auto
    show ?thesis
    proof (cases r)
      case (REPEAT r')
      with Rep.prems y have "conforms g r' y" "set (callees g F r') \<subseteq> set S"
        by (auto simp: list_all_iff)
      with Rep.IH [OF y] av REPEAT show ?thesis by auto
    next
      case (REPEAT1 r')
      with Rep.prems y have "conforms g r' y" "set (callees g F r') \<subseteq> set S"
        by (auto simp: list_all_iff)
      with Rep.IH [OF y] av REPEAT1 show ?thesis by auto
    qed (use Rep.prems in auto)
  qed
  then show ?case by auto
next
  case (Opt x)
  then show ?case by (cases r; cases x) auto
qed

lemma set_reach_terminals:
  "set (reach_terminals g S) = (\<Union>n \<in> set S. set (body_terminals g n))"
  by (simp add: reach_terminals_def)

lemmas sample_defs =
  ident_def int_literal_def if_input_def switch_input_def function_input_def typed_input_def
  call_input_def minus_input_def assign_input_def binary_levels_def lift.simps
  identifier_node_def number_node_def postfix_def ident_postfix_def number_postfix_def
  operand_def conditional_def plain_expression_def ident_expression_def parenthesized_def
  block_def comparison_def return_ident_def if_tree_def case_call_def switch_tree_def
  typedef_declaration_def typed_declaration_def call_statement_def call_declaration_def
  call_unit_def empty_block_def empty_while_def minus_chain_def assignment_def
  assign_chain_def

section \<open>The sample trees are derivations\<close>

lemma if_tree_conforms:
  "conforms cspaced (SYMBOL ''selection_statement'') if_tree" "yield if_tree = if_input"
  by (simp_all only: sample_defs run_simps)

lemma switch_tree_conforms:
  "conforms cspaced (SYMBOL ''selection_statement'') switch_tree"
  "yield switch_tree = switch_input"
  by (simp_all only: sample_defs run_simps)




lemma call_unit_conforms:
  "conforms cspaced (SYMBOL ''translation_unit'') call_unit"
  "yield call_unit = call_input"
  by (simp_all only: sample_defs run_simps)



lemma minus_chain_conforms:
  "conforms cspaced (SYMBOL ''additive_expression'') minus_chain"
  "yield minus_chain = minus_input"
  by (simp_all only: sample_defs run_simps)

lemma assign_chain_conforms:
  "conforms cspaced (SYMBOL ''assignment_expression'') assign_chain"
  "yield assign_chain = assign_input"
  by (simp_all only: sample_defs run_simps)


section \<open>Closed sets of rules of the grammar\<close>

lemmas closure_simps =
  closed_def body_callees_def body_terminals_def reach_terminals_def callees.simps
  barred.simps terminals.simps list_ex_Nil_iff list_ex_Cons_iff rule_of_undefined
  top_level_names_def rule_names_def rules_cspaced cspaced_rules_def statement_tokens_def
  fst_conv run_simps

lemma top_level_closed: "closed cspaced [] top_level_names"
  by (simp only: closure_simps cong: if_weak_cong)


lemma statement_tokens_unreachable:
  "list_all (\<lambda>k. k \<notin> set (reach_terminals cspaced top_level_names)) statement_tokens"
  by (simp only: closure_simps cong: if_weak_cong)


section \<open>Rules that are referenced and never defined\<close>

lemma undefined_not_derived:
  assumes "rule_of g n = None" and "n \<notin> set (externals g)"
  shows "\<not> derives g (SYMBOL n) ts"
proof
  assume "derives g (SYMBOL n) ts"
  then obtain t where "conforms g (SYMBOL n) t"
    by (auto simp: derives_def)
  with assms show False
    by (cases t) auto
qed

lemma undefined_referenced:
  "''function_definition'' \<in> set (symbols external_declaration_rule)"
  "''union_specifier'' \<in> set (symbols type_specifier_rule)"
  "''_parenthesized_parameter_list'' \<in> set (symbols preproc_define_value_rule)"
  by (simp_all add: external_declaration_rule_def type_specifier_rule_def
      preproc_define_value_rule_def)

lemma undefined_not_external:
  "''function_definition'' \<notin> set (externals cspaced)"
  "''union_specifier'' \<notin> set (externals cspaced)"
  "''_parenthesized_parameter_list'' \<notin> set (externals cspaced)"
  by (simp_all add: externals_cspaced)

text \<open>
  C10. The rules \<^verbatim>\<open>function_definition\<close>, \<^verbatim>\<open>union_specifier\<close> and
  \<^verbatim>\<open>_parenthesized_parameter_list\<close> are referenced (by \<^verbatim>\<open>external_declaration\<close>,
  \<^verbatim>\<open>type_specifier\<close> and \<^verbatim>\<open>_preproc_define_value\<close>) and never defined: no token stream is
  derived from any of them, and no derivation tree of the grammar, from whatever rule,
  has a node of one of these kinds. In particular nothing is parsed as a function
  definition.
\<close>

theorem undefined_rules_never_derived:
  "(''function_definition'' \<in> set (symbols external_declaration_rule) \<and>
    ''union_specifier'' \<in> set (symbols type_specifier_rule) \<and>
    ''_parenthesized_parameter_list'' \<in> set (symbols preproc_define_value_rule)) \<and>
   (\<forall>n \<in> {''function_definition'', ''union_specifier'', ''_parenthesized_parameter_list''}.
      rule_of cspaced n = None \<and>
      (\<forall>ts. \<not> derives cspaced (SYMBOL n) ts) \<and>
      (\<forall>r t. conforms cspaced r t \<longrightarrow> n \<notin> set (kinds t)))"
proof -
  have "rule_of cspaced n = None \<and> (\<forall>ts. \<not> derives cspaced (SYMBOL n) ts) \<and>
      (\<forall>r t. conforms cspaced r t \<longrightarrow> n \<notin> set (kinds t))"
    if none: "rule_of cspaced n = None" and ext: "n \<notin> set (externals cspaced)" for n
    using none undefined_not_derived [OF none ext] kinds_defined [of cspaced _ _ n]
    by blast
  with rule_of_undefined(1-3) undefined_not_external undefined_referenced
  show ?thesis by blast
qed

theorem undefined_rules_never_derived_witness:
  "conforms cspaced (SYMBOL ''translation_unit'') call_unit \<and>
   ''function_definition'' \<notin> set (kinds call_unit) \<and>
   ''union_specifier'' \<notin> set (kinds call_unit) \<and>
   ''_parenthesized_parameter_list'' \<notin> set (kinds call_unit) \<and>
   \<not> derives cspaced (SYMBOL ''function_definition'') function_input"
  using undefined_rules_never_derived call_unit_conforms(1) by blast

section \<open>The external tokens\<close>




section \<open>Blocks\<close>


section \<open>What the start rule reaches\<close>

lemma parse_stays_top_level:
  assumes "conforms cspaced (SYMBOL ''translation_unit'') t"
  shows "set (kinds t) \<subseteq> set top_level_names"
    and "set (yield t) \<subseteq> set (reach_terminals cspaced top_level_names)"
proof -
  have c: "set (callees cspaced [] (SYMBOL ''translation_unit'')) \<subseteq> set top_level_names"
    by (simp only: closure_simps insert_subset empty_subsetI)
  have e: "terminals cspaced (SYMBOL ''translation_unit'') = []"
    by (simp only: closure_simps cong: if_weak_cong)
  have d: "set (yield t) \<inter> set ([]::token list) = {}"
    by simp
  from avoiding_closed [OF top_level_closed assms d c]
  have "set (kinds t) \<subseteq> set top_level_names \<and>
        set (yield t) \<subseteq> set [] \<union> set (reach_terminals cspaced top_level_names)"
    by (simp only: e set_reach_terminals)
  then show "set (kinds t) \<subseteq> set top_level_names"
    and "set (yield t) \<subseteq> set (reach_terminals cspaced top_level_names)"
    by simp_all
qed

lemma statement_token_never_parses:
  assumes "parses cspaced ts" and "k \<in> set statement_tokens"
  shows "k \<notin> set ts"
proof -
  from assms(1) obtain t where t: "conforms cspaced (SYMBOL ''translation_unit'') t" "yield t = ts"
    by (auto simp: parses_def derives_def start_rule_cspaced)
  from assms(2) statement_tokens_unreachable
  have "k \<notin> set (reach_terminals cspaced top_level_names)"
    by (simp add: list_all_iff)
  with parse_stays_top_level(2) [OF t(1)] t(2) show ?thesis by auto
qed

lemma statement_kinds_unreachable:
  "list_all (\<lambda>k. k \<notin> set top_level_names)
     [''statement'', ''labeled_statement'', ''compound_statement'', ''expression_statement'',
      ''selection_statement'', ''iteration_statement'', ''jump_statement'']"
  by (simp only: closure_simps cong: if_weak_cong)

text \<open>
  C1. The body of a function definition is not parsed in the indentation form, because
  no function definition is parsed at all: \<^verbatim>\<open>function_definition\<close> has no rule, and the
  token stream of \<^verbatim>\<open>int main(void):\<close> followed by the deeper line \<^verbatim>\<open>return 0\<close> is not derived
  from the start rule.
\<close>

theorem function_definition_does_not_parse:
  "rule_of cspaced ''function_definition'' = None \<and> \<not> parses cspaced function_input"
proof -
  have "Ext ''_indent'' \<in> set statement_tokens" "Ext ''_indent'' \<in> set function_input"
    by (simp_all only: closure_simps sample_defs)
  with statement_token_never_parses rule_of_undefined(1) show ?thesis by blast
qed

text \<open>
  C5. The token stream of \<^verbatim>\<open>if (n <= 1):\<close> followed by the deeper line \<^verbatim>\<open>return n\<close> is not
  derived from the start rule, so the input does not parse. The rule
  \<^verbatim>\<open>selection_statement\<close> by itself does derive it, by a tree with exactly one
  \<^verbatim>\<open>jump_statement\<close> and no \<^verbatim>\<open>_newline\<close> token; the start rule never reaches that rule.
\<close>

theorem if_statement_does_not_parse:
  "\<not> parses cspaced if_input \<and>
   conforms cspaced (SYMBOL ''selection_statement'') if_tree \<and> yield if_tree = if_input \<and>
   count_kind ''jump_statement'' if_tree = 1 \<and> Ext ''_newline'' \<notin> set if_input"
proof -
  have "Lit ''if'' \<in> set statement_tokens" "Lit ''if'' \<in> set if_input"
    by (simp_all only: closure_simps sample_defs)
  with statement_token_never_parses have "\<not> parses cspaced if_input" by blast
  moreover have "count_kind ''jump_statement'' if_tree = 1"
    unfolding count_kind_def by (simp only: sample_defs run_simps filter.simps cong: if_weak_cong)
  moreover have "Ext ''_newline'' \<notin> set if_input"
    by (simp only: closure_simps sample_defs)
  ultimately show ?thesis using if_tree_conforms by simp
qed

text \<open>
  C6. The token stream of \<^verbatim>\<open>switch (x) { case 1: foo() case 2: bar() }\<close> is not derived
  from the start rule, so the input does not parse. The rule \<^verbatim>\<open>selection_statement\<close> by
  itself does derive it, through its brace form; the start rule never reaches that rule.
\<close>

theorem switch_statement_does_not_parse:
  "\<not> parses cspaced switch_input \<and>
   conforms cspaced (SYMBOL ''selection_statement'') switch_tree \<and>
   yield switch_tree = switch_input"
proof -
  have "Lit ''switch'' \<in> set statement_tokens" "Lit ''switch'' \<in> set switch_input"
    by (simp_all only: closure_simps sample_defs)
  with statement_token_never_parses have "\<not> parses cspaced switch_input" by blast
  then show ?thesis using switch_tree_conforms by simp
qed

section \<open>Optional terminators\<close>



lemma conforms_SEQ_snoc:
  "conforms g (SEQ (rs @ [r])) t =
     (\<exists>us u. t = Seq (us @ [u]) \<and> conforms g (SEQ rs) (Seq us) \<and> conforms g r u)"
proof (cases t)
  case (Seq ts)
  show ?thesis
  proof
    assume "conforms g (SEQ (rs @ [r])) t"
    with Seq have "list_all2 (conforms g) (rs @ [r]) ts" by simp
    then obtain us vs where "ts = us @ vs" "list_all2 (conforms g) rs us"
      "list_all2 (conforms g) [r] vs"
      by (auto simp: list_all2_append1)
    moreover then obtain u where "vs = [u]" "conforms g r u"
      by (auto simp: list_all2_Cons1)
    ultimately show "\<exists>us u. t = Seq (us @ [u]) \<and> conforms g (SEQ rs) (Seq us) \<and> conforms g r u"
      using Seq by auto
  next
    assume "\<exists>us u. t = Seq (us @ [u]) \<and> conforms g (SEQ rs) (Seq us) \<and> conforms g r u"
    then show "conforms g (SEQ (rs @ [r])) t"
      by (auto intro: list_all2_appendI)
  qed
qed auto




lemma conforms_SEQ_last:
  assumes "conforms g (SEQ (rs @ [STRING s])) t"
  shows "yield t \<noteq> [] \<and> last (yield t) = Lit s"
proof -
  from assms obtain us u where u: "t = Seq (us @ [u])" "conforms g (STRING s) u"
    by (auto simp: conforms_SEQ_snoc)
  from u(2) have "u = Tok (Lit s)"
    by (cases u) auto
  with u(1) show ?thesis by simp
qed

lemma conforms_SEQ_first:
  assumes "conforms g (SEQ (STRING s # rs)) t"
  shows "yield t \<noteq> [] \<and> hd (yield t) = Lit s"
proof -
  from assms obtain u us where u: "t = Seq (u # us)" "conforms g (STRING s) u"
    by (cases t) (auto simp: list_all2_Cons1)
  from u(2) have "u = Tok (Lit s)"
    by (cases u) auto
  with u(1) show ?thesis by simp
qed

text \<open>
  A \<^verbatim>\<open>do\<close> statement keeps its mandatory \<^verbatim>\<open>;\<close>: every token stream of an
  \<^verbatim>\<open>iteration_statement\<close> that starts with \<^verbatim>\<open>do\<close> ends with \<^verbatim>\<open>;\<close>.
\<close>

lemma do_while_needs_semicolon:
  assumes "derives cspaced (SYMBOL ''iteration_statement'') ts" and "hd ts = Lit ''do''"
  shows "last ts = Lit '';''"
proof -
  from assms(1) obtain t where t: "conforms cspaced (SYMBOL ''iteration_statement'') t"
    "yield t = ts"
    by (auto simp: derives_def)
  have "''iteration_statement'' \<notin> set (externals cspaced)"
    by (simp only: closure_simps) 
  with t(1) obtain t' where t': "t = Rule ''iteration_statement'' t'"
    "conforms cspaced iteration_statement_rule t'"
    by (cases t) (auto simp: rule_of_cspaced)
  from t'(2) obtain i u where u: "t' = Alt i u" "i < 3"
    "conforms cspaced ([
       SEQ [STRING ''while'', SYMBOL ''parenthesized_expression'', SYMBOL ''compound_statement''],
       SEQ ([STRING ''do'', SYMBOL ''compound_statement'', STRING ''while'',
             SYMBOL ''parenthesized_expression''] @ [STRING '';'']),
       SEQ [STRING ''for'', STRING ''('',
            OPTIONAL (CHOICE [SYMBOL ''declaration'', SYMBOL ''expression'']), STRING '';'',
            OPTIONAL (SYMBOL ''expression''), STRING '';'', OPTIONAL (SYMBOL ''expression''),
            STRING '')'', SYMBOL ''compound_statement'']] ! i) u"
    by (cases t') (auto simp: iteration_statement_rule_def)
  from u(2) consider "i = 0" | "i = 1" | "i = 2" by linarith
  then show ?thesis
  proof cases
    case 1
    with u(3) have "hd (yield u) = Lit ''while''"
      using conforms_SEQ_first by simp
    with t t' u(1) assms(2) show ?thesis by simp
  next
    case 2
    with u(3) have "conforms cspaced
        (SEQ ([STRING ''do'', SYMBOL ''compound_statement'', STRING ''while'',
               SYMBOL ''parenthesized_expression''] @ [STRING '';''])) u"
      by simp
    then have "last (yield u) = Lit '';''"
      by (rule conforms_SEQ_last [THEN conjunct2])
    with t t' u(1) show ?thesis by simp
  next
    case 3
    with u(3) have "hd (yield u) = Lit ''for''"
      using conforms_SEQ_first by simp
    with t t' u(1) assms(2) show ?thesis by simp
  qed
qed


lemma defined_not_external:
  assumes "rule_of cspaced n \<noteq> None"
  shows "n \<notin> set (externals cspaced)"
  using assms rule_of_undefined(5-7) by (auto simp: externals_cspaced)






section \<open>Binary levels are flat chains\<close>

lemma no_symbols_no_kinds:
  "conforms g r t \<Longrightarrow> symbols r = [] \<Longrightarrow> kinds t = []"
proof (induction t arbitrary: r)
  case (Tok x)
  then show ?case by simp
next
  case (Rule m t)
  then show ?case by (cases r) auto
next
  case (Seq ts)
  show ?case
  proof (cases r)
    case (SEQ rs)
    have "kinds y = []" if y: "y \<in> set ts" for y
    proof -
      from SEQ Seq.prems y obtain x where "x \<in> set rs" "conforms g x y"
        by (auto dest: list_all2_pick)
      moreover with SEQ Seq.prems have "symbols x = []" by auto
      ultimately show ?thesis using Seq.IH y by blast
    qed
    then show ?thesis by simp
  qed (use Seq.prems in auto)
next
  case (Alt i t)
  then show ?case by (cases r) auto
next
  case (Rep ts)
  have "kinds y = []" if y: "y \<in> set ts" for y
    using Rep y by (cases r) (auto simp: list_all_iff)
  then show ?case by simp
next
  case (Opt x)
  then show ?case by (cases r; cases x) auto
qed

lemma chain_shape:
  assumes "conforms g (binary_expression ops (SYMBOL m)) t"
  shows "\<exists>a bs. t = Seq [a, Rep bs] \<and> conforms g (SYMBOL m) a \<and>
           (\<forall>b \<in> set bs. \<exists>p c. b = Seq [p, c] \<and> conforms g ops p \<and> conforms g (SYMBOL m) c)"
proof -
  from assms obtain a r where t: "t = Seq [a, r]" "conforms g (SYMBOL m) a"
    "conforms g (REPEAT (SEQ [ops, SYMBOL m])) r"
    by (cases t) (auto simp: binary_expression_def list_all2_Cons1)
  from t(3) obtain bs where bs: "r = Rep bs" "list_all (conforms g (SEQ [ops, SYMBOL m])) bs"
    by (cases r) auto
  have "\<exists>p c. b = Seq [p, c] \<and> conforms g ops p \<and> conforms g (SYMBOL m) c"
    if "b \<in> set bs" for b
  proof -
    from that bs have "conforms g (SEQ [ops, SYMBOL m]) b"
      by (simp add: list_all_iff)
    then show ?thesis
      by (cases b) (auto simp: list_all2_Cons1)
  qed
  with t bs show ?thesis by blast
qed

lemma chain_is_flat:
  assumes rule: "rule_of g L = Some (binary_expression ops (SYMBOL m))"
    and ext: "L \<notin> set (externals g)" "m \<notin> set (externals g)"
    and ops: "symbols ops = []"
    and cl: "closed g F S"
    and m: "m \<in> set S"
    and L: "L \<notin> set S"
    and t: "conforms g (SYMBOL L) t"
    and av: "set (yield t) \<inter> set F = {}"
  shows "count_kind L t = 1 \<and> set (kinds t) \<subseteq> insert L (set S)"
proof -
  from t ext obtain t' where t': "t = Rule L t'"
    by (cases t) auto
  with t rule have "conforms g (binary_expression ops (SYMBOL m)) t'"
    by simp
  from chain_shape [OF this] obtain a bs where sh: "t' = Seq [a, Rep bs]"
    "conforms g (SYMBOL m) a"
    "\<forall>b \<in> set bs. \<exists>p c. b = Seq [p, c] \<and> conforms g ops p \<and> conforms g (SYMBOL m) c"
    by blast
  have operand: "set (kinds c) \<subseteq> set S"
    if "conforms g (SYMBOL m) c" "set (yield c) \<inter> set F = {}" for c
  proof -
    have "set (callees g F (SYMBOL m)) \<subseteq> set S"
      using m by simp
    from avoiding_closed [OF cl that this] show ?thesis by simp
  qed
  from av t' sh(1) have ava: "set (yield a) \<inter> set F = {}"
    by auto
  have step: "set (kinds b) \<subseteq> set S" if b: "b \<in> set bs" for b
  proof -
    from sh(3) b obtain p c where pc: "b = Seq [p, c]" "conforms g ops p"
      "conforms g (SYMBOL m) c"
      by blast
    from b pc(1) have "set (yield c) \<subseteq> set (yield t)"
      unfolding t' sh(1) by force
    with av have "set (yield c) \<inter> set F = {}"
      by blast
    with pc(3) have "set (kinds c) \<subseteq> set S"
      by (rule operand)
    with pc(1) no_symbols_no_kinds [OF pc(2) ops] show ?thesis
      by simp
  qed
  from operand [OF sh(2) ava] step have sub: "set (kinds t') \<subseteq> set S"
    using sh(1) by auto
  with L have "filter (\<lambda>n. n = L) (kinds t') = []"
    by (auto simp: filter_empty_conv)
  with t' sub show ?thesis
    by (auto simp: count_kind_def)
qed

lemmas ladder_simps =
  binary_levels_def level_operators_def level_operands_def tight_names_def brackets_def
  below_def butlast.simps zip_Cons_Cons zip_Nil prod.case take_Suc_Cons take_0 take.simps(1)
  symbols.simps distinct.simps

lemma ladder_facts:
  "list_all (\<lambda>i.
      rule_of cspaced (binary_levels ! i) =
        Some (binary_expression (level_operators ! i) (SYMBOL (level_operands ! i))) \<and>
      symbols (level_operators ! i) = [] \<and>
      rule_of cspaced (level_operands ! i) \<noteq> None \<and>
      level_operands ! i \<in> set (below i) \<and>
      binary_levels ! i \<notin> set (below i))
    [0, 1, 2, 3, 4, 5, 6, 7, 8, 9]"
  by (simp only: ladder_simps rule_of_cspaced
      multiplicative_expression_rule_def additive_expression_rule_def
      shift_expression_rule_def relational_expression_rule_def equality_expression_rule_def
      and_expression_rule_def exclusive_or_expression_rule_def
      inclusive_or_expression_rule_def logical_and_expression_rule_def
      logical_or_expression_rule_def
      list_all2_Cons list_all2_Nil list_all2_Nil2 list.pred_inject
      nth_Cons_0 nth_Cons_Suc numeral_eq_Suc pred_numeral_simps BitM.simps One_nat_def
      list.set insert_iff empty_iff list.map concat.simps append.simps
      list.inject list.distinct char.inject rule.inject
      option.inject option.distinct simp_thms if_True if_False
      cong: if_weak_cong)

lemma below_closed:
  "list_all (\<lambda>i. closed cspaced brackets (below i)) [0, 1, 2, 3, 4, 5, 6, 7, 8, 9]"
  by (simp only: ladder_simps closure_simps cong: if_weak_cong)

lemma ladder_distinct:
  "distinct (binary_levels @ tight_names @
     [''conditional_expression'', ''assignment_expression'', ''expression''])"
  by (simp only: ladder_simps run_simps cong: if_weak_cong)

lemma level_index:
  assumes "i < length binary_levels"
  shows "i \<in> set [0, 1, 2, 3, 4, 5, 6, 7, 8, 9::nat]"
proof -
  have "length binary_levels = 10"
    by (simp only: binary_levels_def list.size)
  with assms have "i < 10" by simp
  then show ?thesis by simp arith
qed

lemma binary_level_is_flat:
  assumes i: "i < length binary_levels"
    and t: "conforms cspaced (SYMBOL (binary_levels ! i)) t"
    and av: "set (yield t) \<inter> set brackets = {}"
  shows "count_kind (binary_levels ! i) t = 1 \<and>
         set (kinds t) \<subseteq> insert (binary_levels ! i) (set (below i))"
proof -
  from level_index [OF i] ladder_facts below_closed
  have f: "rule_of cspaced (binary_levels ! i) =
        Some (binary_expression (level_operators ! i) (SYMBOL (level_operands ! i)))"
    "symbols (level_operators ! i) = []"
    "level_operands ! i \<in> set (below i)"
    "binary_levels ! i \<notin> set (below i)"
    "closed cspaced brackets (below i)"
    "rule_of cspaced (level_operands ! i) \<noteq> None"
    unfolding list_all_iff by blast+
  from f(1) have e1: "binary_levels ! i \<notin> set (externals cspaced)"
    by (intro defined_not_external) simp
  from f(6) have e2: "level_operands ! i \<notin> set (externals cspaced)"
    by (rule defined_not_external)
  from chain_is_flat [OF f(1) e1 e2 f(2) f(5) f(3) f(4) t av] show ?thesis .
qed

lemma tight_is_closed:
  assumes n: "n = ''cast_expression'' \<or> n = ''unary_expression''"
    and u: "conforms cspaced (SYMBOL n) u"
    and av: "set (yield u) \<inter> set brackets = {}"
  shows "set (kinds u) \<subseteq> set tight_names"
proof -
  from below_closed have cl: "closed cspaced brackets (below 0)"
    by (simp add: list_all_iff)
  have b0: "below 0 = tight_names"
    by (simp add: below_def)
  have "rule_of cspaced ''cast_expression'' \<noteq> None"
    "rule_of cspaced ''unary_expression'' \<noteq> None"
    by (simp_all only: rule_of_cspaced option.distinct simp_thms)
  with n have d: "rule_of cspaced n \<noteq> None" by blast
  have "''cast_expression'' \<in> set tight_names" "''unary_expression'' \<in> set tight_names"
    by (simp_all only: ladder_simps run_simps)
  with n have "n \<in> set tight_names" by blast
  with d have "set (callees cspaced brackets (SYMBOL n)) \<subseteq> set (below 0)"
    by (simp add: b0)
  from avoiding_closed [OF cl u av this] b0 show ?thesis by simp
qed

lemma precedences_ladder:
  "hd (precedences cspaced) =
     map PName [''multiplication'', ''addition'', ''shift'', ''relational'', ''equality'',
       ''bitwise_and'', ''bitwise_xor'', ''bitwise_or'', ''logical_and'', ''logical_or'']"
  by (simp add: cspaced_def)

lemma ladder_rules:
  "map (rule_of cspaced) binary_levels =
     map Some (map2 binary_expression level_operators (map SYMBOL level_operands))"
  by (simp only: ladder_simps rule_of_cspaced
      multiplicative_expression_rule_def additive_expression_rule_def
      shift_expression_rule_def relational_expression_rule_def equality_expression_rule_def
      and_expression_rule_def exclusive_or_expression_rule_def
      inclusive_or_expression_rule_def logical_and_expression_rule_def
      logical_or_expression_rule_def list.map list.distinct simp_thms if_True if_False
      cong: if_weak_cong)

lemma lower_rules:
  "rule_of cspaced ''conditional_expression'' =
     Some (SEQ [SYMBOL ''logical_or_expression'',
                OPTIONAL (SEQ [STRING ''?'', SYMBOL ''expression'', STRING '':'',
                               SYMBOL ''conditional_expression''])])"
  "rule_of cspaced ''assignment_expression'' =
     Some (CHOICE [SYMBOL ''conditional_expression'',
                   SEQ [SYMBOL ''unary_expression'', SYMBOL ''assignment_operator'',
                        SYMBOL ''assignment_expression'']])"
  "rule_of cspaced ''expression'' =
     Some (SEQ [SYMBOL ''assignment_expression'',
                REPEAT (SEQ [STRING '','', SYMBOL ''assignment_expression''])])"
  by (simp_all only: rule_of_cspaced conditional_expression_rule_def
      assignment_expression_rule_def expression_rule_def)

lemma minus_chain_avoids: "set (yield minus_chain) \<inter> set brackets = {}"
  by (simp only: minus_chain_conforms minus_input_def brackets_def ident_def list.set
      Int_insert_left Int_empty_left insert_iff empty_iff token.inject token.distinct
      list.inject list.distinct char.inject simp_thms if_False)

text \<open>
  Against C4 as stated: \<^verbatim>\<open>a - b - c\<close> is an \<^verbatim>\<open>additive_expression\<close>, and none of its
  derivations has a second \<^verbatim>\<open>additive_expression\<close> node: neither \<^verbatim>\<open>a - b\<close> nor \<^verbatim>\<open>b - c\<close> is a
  node of the tree.
\<close>

theorem binary_chain_is_not_nested:
  "derives cspaced (SYMBOL ''additive_expression'') minus_input \<and>
   \<not> nests cspaced ''additive_expression'' minus_input"
proof -
  have i: "1 < length binary_levels" "binary_levels ! 1 = ''additive_expression''"
    by (simp_all add: binary_levels_def)
  have "\<not> 1 < count_kind ''additive_expression'' t"
    if "conforms cspaced (SYMBOL ''additive_expression'') t" "yield t = minus_input" for t
    using binary_level_is_flat [OF i(1), unfolded i(2), of t] that minus_chain_avoids
      minus_chain_conforms(2)
    by simp
  then have "\<not> nests cspaced ''additive_expression'' minus_input"
    unfolding nests_def by blast
  moreover have "derives cspaced (SYMBOL ''additive_expression'') minus_input"
    unfolding derives_def using minus_chain_conforms by blast
  ultimately show ?thesis by simp
qed

lemma assign_chain_nested: "count_kind ''assignment_expression'' assign_chain = 3"
  unfolding count_kind_def
  by (simp only: sample_defs run_simps filter.simps cong: if_weak_cong)

lemma minus_chain_count: "count_kind ''additive_expression'' minus_chain = 1"
  unfolding count_kind_def
  by (simp only: sample_defs run_simps filter.simps cong: if_weak_cong)

text \<open>
  C4, as amended. The precedence table lists the ten binary levels in C's order, and the
  rules realise that order as a cascade: the rule of each level is
  \<^verbatim>\<open>binary_expression\<close> of its operators and of the next tighter level, the tightest
  level taking \<^verbatim>\<open>cast_expression\<close>; \<^verbatim>\<open>conditional_expression\<close>, \<^verbatim>\<open>assignment_expression\<close>
  and \<^verbatim>\<open>expression\<close> (the comma list) follow below the loosest level, and assignment is
  right-recursive (\<^verbatim>\<open>a = b = c\<close> nests \<^verbatim>\<open>b = c\<close> as the right operand). A derivation from a
  binary level whose yield has no opening bracket has exactly one node of that level,
  and otherwise only nodes of tighter levels and of the cast, unary, postfix and
  primary rules: a chain \<^verbatim>\<open>a op b op c\<close> is one flat node, grouped neither to the left nor
  to the right. A derivation without brackets from \<^verbatim>\<open>cast_expression\<close> or
  \<^verbatim>\<open>unary_expression\<close> has no node of a binary level at all.
\<close>

theorem precedence_ladder:
  "hd (precedences cspaced) =
     map PName [''multiplication'', ''addition'', ''shift'', ''relational'', ''equality'',
       ''bitwise_and'', ''bitwise_xor'', ''bitwise_or'', ''logical_and'', ''logical_or''] \<and>
   map (rule_of cspaced) binary_levels =
     map Some (map2 binary_expression level_operators
       (map SYMBOL (''cast_expression'' # butlast binary_levels))) \<and>
   rule_of cspaced ''conditional_expression'' =
     Some (SEQ [SYMBOL ''logical_or_expression'',
                OPTIONAL (SEQ [STRING ''?'', SYMBOL ''expression'', STRING '':'',
                               SYMBOL ''conditional_expression''])]) \<and>
   rule_of cspaced ''assignment_expression'' =
     Some (CHOICE [SYMBOL ''conditional_expression'',
                   SEQ [SYMBOL ''unary_expression'', SYMBOL ''assignment_operator'',
                        SYMBOL ''assignment_expression'']]) \<and>
   rule_of cspaced ''expression'' =
     Some (SEQ [SYMBOL ''assignment_expression'',
                REPEAT (SEQ [STRING '','', SYMBOL ''assignment_expression''])]) \<and>
   (conforms cspaced (SYMBOL ''assignment_expression'') assign_chain \<and>
    yield assign_chain = assign_input \<and>
    count_kind ''assignment_expression'' assign_chain = 3) \<and>
   distinct (binary_levels @ tight_names @
     [''conditional_expression'', ''assignment_expression'', ''expression'']) \<and>
   (i < length binary_levels \<longrightarrow>
    conforms cspaced (SYMBOL (binary_levels ! i)) t \<longrightarrow>
    set (yield t) \<inter> set brackets = {} \<longrightarrow>
      count_kind (binary_levels ! i) t = 1 \<and>
      set (kinds t) \<subseteq> insert (binary_levels ! i) (set (take i binary_levels @ tight_names))) \<and>
   (n = ''cast_expression'' \<or> n = ''unary_expression'' \<longrightarrow>
    conforms cspaced (SYMBOL n) u \<longrightarrow>
    set (yield u) \<inter> set brackets = {} \<longrightarrow>
      set (kinds u) \<subseteq> set tight_names)"
  using precedences_ladder ladder_rules [unfolded level_operands_def] lower_rules
    assign_chain_conforms assign_chain_nested ladder_distinct
    binary_level_is_flat [of i t, unfolded below_def] tight_is_closed [of n u]
  by blast

theorem precedence_ladder_witness:
  "1 < length binary_levels \<and>
   conforms cspaced (SYMBOL (binary_levels ! 1)) minus_chain \<and>
   set (yield minus_chain) \<inter> set brackets = {} \<and>
   count_kind (binary_levels ! 1) minus_chain = 1 \<and>
   conforms cspaced (SYMBOL ''cast_expression'') (operand ident_postfix) \<and>
   set (yield (operand ident_postfix)) \<inter> set brackets = {} \<and>
   set (kinds (operand ident_postfix)) \<subseteq> set tight_names"
proof -
  have i: "1 < length binary_levels" "binary_levels ! 1 = ''additive_expression''"
    by (simp_all add: binary_levels_def)
  have c: "conforms cspaced (SYMBOL ''cast_expression'') (operand ident_postfix)"
    by (simp only: sample_defs run_simps)
  have y: "yield (operand ident_postfix) = [ident]"
    by (simp only: sample_defs run_simps)
  have a: "set (yield (operand ident_postfix)) \<inter> set brackets = {}"
    by (simp only: y brackets_def ident_def list.set
      Int_insert_left Int_empty_left insert_iff empty_iff token.inject token.distinct
      list.inject list.distinct char.inject simp_thms if_False)
  from precedence_ladder [of 1 minus_chain "''cast_expression''" "operand ident_postfix"]
    i minus_chain_conforms(1) minus_chain_avoids c a
  show ?thesis by simp
qed

section \<open>Bounds on the length of derived token streams\<close>
















end
